theory Spec2Isabelle
  imports Main "HOL-Library.Multiset" "HOL-Library.List_Lexorder" "HOL-Library.Char_ord"
begin

section \<open>Strings and dates\<close>

text \<open>
  JavaScript strings are modelled as \<open>string\<close> (lists of 8-bit characters). The functions
  below are the built-ins the branch-cleanup code calls: \<open>String.prototype.toLowerCase\<close>
  (on the ASCII letters, the only ones that can produce the letters of the searched word),
  \<open>String.prototype.includes\<close>, \<open>replace\<close> with a global one-character pattern and
  \<open>replace\<close> with a string pattern (first occurrence only).
\<close>

definition toLowerChar :: "char \<Rightarrow> char" where
  "toLowerChar c =
     (case map_of (zip ''ABCDEFGHIJKLMNOPQRSTUVWXYZ'' ''abcdefghijklmnopqrstuvwxyz'') c of
        Some l \<Rightarrow> l
      | None \<Rightarrow> c)"

definition toLowerCase :: "string \<Rightarrow> string" where
  "toLowerCase s = map toLowerChar s"

fun str_includes :: "string \<Rightarrow> string \<Rightarrow> bool" where
  "str_includes [] n = (n = [])"
| "str_includes (c # cs) n = (take (length n) (c # cs) = n \<or> str_includes cs n)"

text \<open>\<open>s.replace(/\<bslash>//g, '-')\<close>: every slash becomes a dash.\<close>

definition replace_slashes :: "string \<Rightarrow> string" where
  "replace_slashes s = map (\<lambda>c. if c = CHR ''/'' then CHR ''-'' else c) s"

text \<open>\<open>s.replace('*', '.*')\<close>: a string pattern replaces the first occurrence only.\<close>

fun replace_first_star :: "string \<Rightarrow> string" where
  "replace_first_star [] = []"
| "replace_first_star (c # cs) =
     (if c = CHR ''*'' then ''.*'' @ cs else c # replace_first_star cs)"

text \<open>
  The calendar date that \<open>dayjs()\<close> reads, and \<open>format('YYYYMMDD')\<close>: the year padded to
  four digits, the month and the day of the month to two.
\<close>

record date =
  d_year :: nat
  d_month :: nat
  d_day :: nat

definition digit :: "nat \<Rightarrow> char" where
  "digit n = ''0123456789'' ! (n mod 10)"

fun decimal :: "nat \<Rightarrow> string" where
  "decimal n = (if n < 10 then [digit n] else decimal (n div 10) @ [digit n])"

declare decimal.simps [simp del]

definition padStart :: "nat \<Rightarrow> char \<Rightarrow> string \<Rightarrow> string" where
  "padStart n c s = replicate (n - length s) c @ s"

definition format_YYYYMMDD :: "date \<Rightarrow> string" where
  "format_YYYYMMDD d =
     padStart 4 (CHR ''0'') (decimal (d_year d)) @
     padStart 2 (CHR ''0'') (decimal (d_month d)) @
     padStart 2 (CHR ''0'') (decimal (d_day d))"

section \<open>Records of the reporter\<close>

datatype ActionTaken =
    Deleted
  | SkippedUnsafe
  | SkippedTooRecent
  | SkippedProtected
  | SkippedExcluded
  | ProtectedRuleBlocked
  | TokenInsufficient
  | AlreadyDeleted
  | Error

record CleanupRecord =
  org :: string
  repo :: string
  branch :: string
  headSha :: string
  mergedPr :: "int option"
  mergedAt :: "string option"
  defaultBranch :: string
  protected :: bool
  actionTaken :: ActionTaken
  backupTag :: string
  error :: string

record ReportSummary =
  totalBranches :: nat
  deleted :: nat
  skipped :: nat
  errors :: nat
  byStatus :: "ActionTaken \<rightharpoonup> nat"
  byRepo :: "string \<rightharpoonup> nat"

text \<open>
  What \<open>writeReports\<close> hands to \<open>fs.writeFileSync\<close>, as the data that the text is made
  from: the JSON document (dry-run flag, summary, records), the CSV text and the summary
  text (summary, dry-run flag). The timestamps and the duration in them are left out.
\<close>

datatype file_content =
    JsonReport bool ReportSummary "CleanupRecord list"
  | CsvReport string
  | SummaryText ReportSummary bool

section \<open>Errors, requests and the collaborators\<close>

text \<open>
  A thrown value, as the code inspects it: \<open>error.status\<close> (absent on anything that is not
  an HTTP error), \<open>error.message\<close> and \<open>String(error)\<close>.
\<close>

record js_error =
  err_status :: "int option"
  err_message :: "string option"
  err_string :: string

text \<open>The requests the code sends; the list of them is the trace of a run.\<close>

datatype request =
    GetRepo string string
  | GraphQLMergedPRs string string
  | GetBranch string string string
  | GetCompare string string string
  | PostGitTag string string string string
  | PostGitRef string string string string
  | DeleteGitRef string string string
  | PatchRepo string string
  | GetIssues string string
  | PostIssue string string string

fun mutating :: "request \<Rightarrow> bool" where
  "mutating (PostGitTag _ _ _ _) = True"
| "mutating (PostGitRef _ _ _ _) = True"
| "mutating (DeleteGitRef _ _ _) = True"
| "mutating (PatchRepo _ _) = True"
| "mutating (PostIssue _ _ _) = True"
| "mutating _ = False"

record repo_data =
  perm_push :: "bool option"
  perm_admin :: "bool option"
  delete_branch_on_merge :: "bool option"
  default_branch :: string

record MergedPR =
  pr_number :: int
  pr_mergedAt :: string
  headRefName :: string
  headRefOid :: string
  baseRefName :: string

record CompareResult =
  cr_status :: string
  ahead_by :: int
  behind_by :: int

text \<open>
  The collaborators, over a world \<open>'w\<close> that each call may change: the hosting API (one
  field per endpoint the code uses, returning the thrown error or the fields of
  \<open>data\<close> that the code reads), the clock read through dayjs, \<open>RegExp\<close>, and what
  \<open>writeReports\<close> uses: the file system, \<open>path.join\<close> and json2csv.
  \<open>api_merged_prs\<close> is the whole paginated enumeration: the pages, or the error of the
  page that failed. \<open>dayjs_diff_days w t\<close> is \<open>dayjs().diff(dayjs(t), 'days')\<close>, \<open>None\<close>
  when it is NaN. \<open>regexp_test src s\<close> is \<open>new RegExp(src).test(s)\<close>, an error when the
  source does not compile. \<open>dayjs_stamp w\<close> is \<open>dayjs().format('YYYY-MM-DD-HHmmss')\<close>.
\<close>

record 'w env =
  api_get_repo :: "string \<Rightarrow> string \<Rightarrow> 'w \<Rightarrow> (js_error + repo_data) \<times> 'w"
  api_merged_prs :: "string \<Rightarrow> string \<Rightarrow> 'w \<Rightarrow> (js_error + MergedPR list list) \<times> 'w"
  api_get_branch :: "string \<Rightarrow> string \<Rightarrow> string \<Rightarrow> 'w \<Rightarrow> (js_error + bool) \<times> 'w"
  api_compare :: "string \<Rightarrow> string \<Rightarrow> string \<Rightarrow> 'w \<Rightarrow> (js_error + CompareResult) \<times> 'w"
  api_post_tag :: "string \<Rightarrow> string \<Rightarrow> string \<Rightarrow> string \<Rightarrow> 'w \<Rightarrow> (js_error + string) \<times> 'w"
  api_post_ref :: "string \<Rightarrow> string \<Rightarrow> string \<Rightarrow> string \<Rightarrow> 'w \<Rightarrow> (js_error + unit) \<times> 'w"
  api_delete_ref :: "string \<Rightarrow> string \<Rightarrow> string \<Rightarrow> 'w \<Rightarrow> (js_error + unit) \<times> 'w"
  api_patch_repo :: "string \<Rightarrow> string \<Rightarrow> 'w \<Rightarrow> (js_error + unit) \<times> 'w"
  api_get_issues :: "string \<Rightarrow> string \<Rightarrow> 'w \<Rightarrow> (js_error + string list) \<times> 'w"
  api_post_issue :: "string \<Rightarrow> string \<Rightarrow> string \<Rightarrow> 'w \<Rightarrow> (js_error + unit) \<times> 'w"
  dayjs_today :: "'w \<Rightarrow> date"
  dayjs_diff_days :: "'w \<Rightarrow> string \<Rightarrow> int option"
  regexp_test :: "string \<Rightarrow> string \<Rightarrow> js_error + bool"
  dayjs_stamp :: "'w \<Rightarrow> string"
  path_join :: "string \<Rightarrow> string \<Rightarrow> string"
  fs_mkdirSync :: "string \<Rightarrow> 'w \<Rightarrow> (js_error + unit) \<times> 'w"
  fs_writeFileSync :: "string \<Rightarrow> file_content \<Rightarrow> 'w \<Rightarrow> (js_error + unit) \<times> 'w"
  jsonToCsv :: "CleanupRecord list \<Rightarrow> js_error + string"

section \<open>The state of a run\<close>

text \<open>
  The world of the collaborators, the trace of requests sent so far, the issue cache of
  the PermissionsHandler and the record list of the Reporter.
\<close>

record 'w state =
  world :: 'w
  calls :: "request list"
  issueCache :: "string set"
  records :: "CleanupRecord list"

text \<open>\<open>octokit.request\<close>: send the request, note it in the trace, keep the new world.\<close>

definition octokit_request ::
  "request \<Rightarrow> ('w \<Rightarrow> (js_error + 'a) \<times> 'w) \<Rightarrow> 'w state \<Rightarrow> (js_error + 'a) \<times> 'w state" where
  "octokit_request rq f s =
     (case f (world s) of (r, w') \<Rightarrow> (r, s\<lparr>world := w', calls := calls s @ [rq]\<rparr>))"

section \<open>backup-and-delete.ts\<close>

datatype DeletionResult =
    ResDeleted string
  | ResProtectedRuleBlocked string
  | ResTokenInsufficient string
  | ResAlreadyDeleted string
  | ResError string

fun result_status :: "DeletionResult \<Rightarrow> ActionTaken" where
  "result_status (ResDeleted _) = Deleted"
| "result_status (ResProtectedRuleBlocked _) = ProtectedRuleBlocked"
| "result_status (ResTokenInsufficient _) = TokenInsufficient"
| "result_status (ResAlreadyDeleted _) = AlreadyDeleted"
| "result_status (ResError _) = Error"

text \<open>\<open>'backupTag' in result ? result.backupTag : ''\<close> and the same for \<open>error\<close>.\<close>

fun result_backupTag :: "DeletionResult \<Rightarrow> string" where
  "result_backupTag (ResDeleted t) = t"
| "result_backupTag _ = ''''"

fun result_error :: "DeletionResult \<Rightarrow> string" where
  "result_error (ResDeleted _) = ''''"
| "result_error (ResProtectedRuleBlocked e) = e"
| "result_error (ResTokenInsufficient e) = e"
| "result_error (ResAlreadyDeleted e) = e"
| "result_error (ResError e) = e"

record BackupConfig =
  create_backup_tag :: bool
  backup_tag_prefix :: string
  backup_ttl_days :: int
  minimum_age_days :: int

text \<open>\<open>error.status || 0\<close> and \<open>error.message || String(error)\<close>.\<close>

definition status_or_zero :: "js_error \<Rightarrow> int" where
  "status_or_zero e = (case err_status e of None \<Rightarrow> 0 | Some n \<Rightarrow> n)"

definition message_or_string :: "js_error \<Rightarrow> string" where
  "message_or_string e =
     (case err_message e of
        None \<Rightarrow> err_string e
      | Some m \<Rightarrow> if m = [] then err_string e else m)"

definition handleDeletionError :: "js_error \<Rightarrow> DeletionResult" where
  "handleDeletionError e =
     (let status = status_or_zero e; message = message_or_string e in
      if status = 403 then
        (if str_includes (toLowerCase message) ''protected'' then ResProtectedRuleBlocked message
         else if str_includes (toLowerCase message) ''resource not accessible''
           then ResTokenInsufficient message
         else ResTokenInsufficient message)
      else if status = 422 then ResAlreadyDeleted ''Branch reference not found''
      else if status = 404 then ResAlreadyDeleted ''Branch not found''
      else ResError message)"

definition getBackupTagName :: "BackupConfig \<Rightarrow> date \<Rightarrow> string \<Rightarrow> string" where
  "getBackupTagName cfg today branchName =
     backup_tag_prefix cfg @ ''/'' @ replace_slashes branchName @ ''/'' @ format_YYYYMMDD today"

text \<open>
  \<open>createBackupTag\<close>: the annotated tag object, then the reference to it. A failure of
  the first request leaves the second unsent.
\<close>

definition createBackupTag ::
  "'w env \<Rightarrow> BackupConfig \<Rightarrow> string \<Rightarrow> string \<Rightarrow> string \<Rightarrow> string \<Rightarrow> 'w state \<Rightarrow>
     (js_error + string) \<times> 'w state" where
  "createBackupTag ev cfg owner rp branchName sha s =
     (let tagName = getBackupTagName cfg (dayjs_today ev (world s)) branchName in
      case octokit_request (PostGitTag owner rp tagName sha)
             (api_post_tag ev owner rp tagName sha) s of
        (Inl e, s1) \<Rightarrow> (Inl e, s1)
      | (Inr tagObjectSha, s1) \<Rightarrow>
          (case octokit_request (PostGitRef owner rp (''refs/tags/'' @ tagName) tagObjectSha)
                  (api_post_ref ev owner rp (''refs/tags/'' @ tagName) tagObjectSha) s1 of
             (Inl e, s2) \<Rightarrow> (Inl e, s2)
           | (Inr _, s2) \<Rightarrow> (Inr tagName, s2)))"

definition deleteBranch ::
  "'w env \<Rightarrow> string \<Rightarrow> string \<Rightarrow> string \<Rightarrow> 'w state \<Rightarrow> (js_error + unit) \<times> 'w state" where
  "deleteBranch ev owner rp branchName s =
     octokit_request (DeleteGitRef owner rp (''heads/'' @ branchName))
       (api_delete_ref ev owner rp (''heads/'' @ branchName)) s"

text \<open>The body of the \<open>try\<close> block of \<open>backupAndDelete\<close>: the backup tag, or what was thrown.\<close>

definition backupAndDelete_try ::
  "'w env \<Rightarrow> BackupConfig \<Rightarrow> string \<Rightarrow> string \<Rightarrow> string \<Rightarrow> string \<Rightarrow> bool \<Rightarrow> 'w state \<Rightarrow>
     (js_error + string) \<times> 'w state" where
  "backupAndDelete_try ev cfg owner rp branchName sha dryRun s =
     (case (if create_backup_tag cfg \<and> \<not> dryRun
              then createBackupTag ev cfg owner rp branchName sha s
            else if create_backup_tag cfg \<and> dryRun
              then (Inr (getBackupTagName cfg (dayjs_today ev (world s)) branchName), s)
            else (Inr '''', s)) of
        (Inl e, s1) \<Rightarrow> (Inl e, s1)
      | (Inr tag, s1) \<Rightarrow>
          if \<not> dryRun then
            (case deleteBranch ev owner rp branchName s1 of
               (Inl e, s2) \<Rightarrow> (Inl e, s2)
             | (Inr _, s2) \<Rightarrow> (Inr tag, s2))
          else (Inr tag, s1))"

definition backupAndDelete ::
  "'w env \<Rightarrow> BackupConfig \<Rightarrow> string \<Rightarrow> string \<Rightarrow> string \<Rightarrow> string \<Rightarrow> bool \<Rightarrow> 'w state \<Rightarrow>
     DeletionResult \<times> 'w state" where
  "backupAndDelete ev cfg owner rp branchName sha dryRun s =
     (case backupAndDelete_try ev cfg owner rp branchName sha dryRun s of
        (Inr tag, s1) \<Rightarrow> (ResDeleted tag, s1)
      | (Inl e, s1) \<Rightarrow> (handleDeletionError e, s1))"

section \<open>The hosting API client\<close>

record BranchInfo =
  bi_name :: string
  bi_protected :: bool
  bi_exists :: bool

definition getDefaultBranch ::
  "'w env \<Rightarrow> string \<Rightarrow> string \<Rightarrow> 'w state \<Rightarrow> (js_error + string) \<times> 'w state" where
  "getDefaultBranch ev owner rp s =
     (case octokit_request (GetRepo owner rp) (api_get_repo ev owner rp) s of
        (Inl e, s1) \<Rightarrow> (Inl e, s1)
      | (Inr d, s1) \<Rightarrow> (Inr (default_branch d), s1))"

text \<open>\<open>getMergedPRs\<close>: the nodes of every page, in order; a page that fails throws.\<close>

definition getMergedPRs ::
  "'w env \<Rightarrow> string \<Rightarrow> string \<Rightarrow> 'w state \<Rightarrow> (js_error + MergedPR list) \<times> 'w state" where
  "getMergedPRs ev owner rp s =
     (case octokit_request (GraphQLMergedPRs owner rp) (api_merged_prs ev owner rp) s of
        (Inl e, s1) \<Rightarrow> (Inl e, s1)
      | (Inr pages, s1) \<Rightarrow> (Inr (concat pages), s1))"

definition checkBranch ::
  "'w env \<Rightarrow> string \<Rightarrow> string \<Rightarrow> string \<Rightarrow> 'w state \<Rightarrow> (js_error + BranchInfo) \<times> 'w state" where
  "checkBranch ev owner rp b s =
     (case octokit_request (GetBranch owner rp b) (api_get_branch ev owner rp b) s of
        (Inr p, s1) \<Rightarrow> (Inr \<lparr>bi_name = b, bi_protected = p, bi_exists = True\<rparr>, s1)
      | (Inl e, s1) \<Rightarrow>
          if err_status e = Some 404
            then (Inr \<lparr>bi_name = b, bi_protected = False, bi_exists = False\<rparr>, s1)
          else (Inl e, s1))"

definition compareCommits ::
  "'w env \<Rightarrow> string \<Rightarrow> string \<Rightarrow> string \<Rightarrow> string \<Rightarrow> 'w state \<Rightarrow>
     (js_error + CompareResult) \<times> 'w state" where
  "compareCommits ev owner rp base hd_ref s =
     (case octokit_request (GetCompare owner rp (base @ ''...'' @ hd_ref))
             (api_compare ev owner rp (base @ ''...'' @ hd_ref)) s of
        (Inr d, s1) \<Rightarrow>
          (Inr \<lparr>cr_status = cr_status d, ahead_by = ahead_by d, behind_by = behind_by d\<rparr>, s1)
      | (Inl e, s1) \<Rightarrow>
          if err_status e = Some 404
            then (Inr \<lparr>cr_status = ''diverged'', ahead_by = 0, behind_by = 0\<rparr>, s1)
          else (Inl e, s1))"

definition isBranchReachable ::
  "'w env \<Rightarrow> string \<Rightarrow> string \<Rightarrow> string \<Rightarrow> string \<Rightarrow> 'w state \<Rightarrow>
     (js_error + bool) \<times> 'w state" where
  "isBranchReachable ev owner rp base hd_ref s =
     (case compareCommits ev owner rp base hd_ref s of
        (Inl e, s1) \<Rightarrow> (Inl e, s1)
      | (Inr r, s1) \<Rightarrow> (Inr (cr_status r = ''behind'' \<or> cr_status r = ''identical''), s1))"

section \<open>The permissions handler\<close>

record PermissionCheckResult =
  canDelete :: bool
  canAdmin :: bool
  autoDeleteEnabled :: bool
  perm_error :: "string option"

definition checkPermissions ::
  "'w env \<Rightarrow> string \<Rightarrow> string \<Rightarrow> 'w state \<Rightarrow> PermissionCheckResult \<times> 'w state" where
  "checkPermissions ev owner rp s =
     (case octokit_request (GetRepo owner rp) (api_get_repo ev owner rp) s of
        (Inr d, s1) \<Rightarrow>
          (\<lparr>canDelete = (perm_push d = Some True),
            canAdmin = (perm_admin d = Some True),
            autoDeleteEnabled = (delete_branch_on_merge d = Some True),
            perm_error = None\<rparr>, s1)
      | (Inl e, s1) \<Rightarrow>
          (\<lparr>canDelete = False, canAdmin = False, autoDeleteEnabled = False,
            perm_error = err_message e\<rparr>, s1))"

definition enableAutoDelete ::
  "'w env \<Rightarrow> string \<Rightarrow> string \<Rightarrow> bool \<Rightarrow> 'w state \<Rightarrow> (js_error + bool) \<times> 'w state" where
  "enableAutoDelete ev owner rp dryRun s =
     (if dryRun then (Inr True, s)
      else
        (case octokit_request (PatchRepo owner rp) (api_patch_repo ev owner rp) s of
           (Inr _, s1) \<Rightarrow> (Inr True, s1)
         | (Inl e, s1) \<Rightarrow>
             if err_status e = Some 403 then (Inr False, s1) else (Inl e, s1)))"

definition issue_title :: string where
  "issue_title = ''Grant admin/contents permissions for branch cleanup (+ enable auto-delete)''"

text \<open>
  \<open>createPermissionIssue\<close> returns nothing and throws nothing: both requests are inside
  its \<open>try\<close> block, whose \<open>catch\<close> only logs. The issue body is not part of the trace.
\<close>

definition createPermissionIssue ::
  "'w env \<Rightarrow> string \<Rightarrow> string \<Rightarrow> nat \<Rightarrow> bool \<Rightarrow> 'w state \<Rightarrow> 'w state" where
  "createPermissionIssue ev owner rp blockedCount dryRun s =
     (let issueKey = owner @ ''/'' @ rp in
      if issueKey \<in> issueCache s then s
      else if dryRun then s\<lparr>issueCache := insert issueKey (issueCache s)\<rparr>
      else
        (case octokit_request (GetIssues owner rp) (api_get_issues ev owner rp) s of
           (Inl e, s1) \<Rightarrow> s1
         | (Inr existingIssues, s1) \<Rightarrow>
             if issue_title \<in> set existingIssues
               then s1\<lparr>issueCache := insert issueKey (issueCache s1)\<rparr>
             else
               (case octokit_request (PostIssue owner rp issue_title)
                       (api_post_issue ev owner rp issue_title) s1 of
                  (Inl e, s2) \<Rightarrow> s2
                | (Inr _, s2) \<Rightarrow> s2\<lparr>issueCache := insert issueKey (issueCache s2)\<rparr>)))"

section \<open>The reporter\<close>

definition addRecord :: "CleanupRecord \<Rightarrow> 'w state \<Rightarrow> 'w state" where
  "addRecord r s = s\<lparr>records := records s @ [r]\<rparr>"

text \<open>\<open>if (!m[k]) m[k] = 0; m[k]++\<close> on an object used as a table of counts.\<close>

definition init_zero :: "('k \<rightharpoonup> nat) \<Rightarrow> 'k \<Rightarrow> ('k \<rightharpoonup> nat)" where
  "init_zero m k = (case m k of None \<Rightarrow> m(k \<mapsto> 0) | Some n \<Rightarrow> if n = 0 then m(k \<mapsto> 0) else m)"

definition increment :: "('k \<rightharpoonup> nat) \<Rightarrow> 'k \<Rightarrow> ('k \<rightharpoonup> nat)" where
  "increment m k = (case m k of None \<Rightarrow> m | Some n \<Rightarrow> m(k \<mapsto> n + 1))"

definition summary_step :: "ReportSummary \<Rightarrow> CleanupRecord \<Rightarrow> ReportSummary" where
  "summary_step sm r =
     (let sm1 = sm\<lparr>byStatus := increment (init_zero (byStatus sm) (actionTaken r)) (actionTaken r)\<rparr>;
          repoKey = org r @ ''/'' @ repo r;
          sm2 = sm1\<lparr>byRepo := increment (init_zero (byRepo sm1) repoKey) repoKey\<rparr>
      in if actionTaken r = Deleted then sm2\<lparr>deleted := deleted sm2 + 1\<rparr>
         else if actionTaken r = Error then sm2\<lparr>errors := errors sm2 + 1\<rparr>
         else sm2\<lparr>skipped := skipped sm2 + 1\<rparr>)"

definition getSummary :: "CleanupRecord list \<Rightarrow> ReportSummary" where
  "getSummary rs =
     foldl summary_step
       \<lparr>totalBranches = length rs, deleted = 0, skipped = 0, errors = 0,
        byStatus = Map.empty, byRepo = Map.empty\<rparr> rs"

definition hasErrors :: "CleanupRecord list \<Rightarrow> bool" where
  "hasErrors rs = list_ex (\<lambda>r. actionTaken r = Error) rs"

record ReportConfig =
  out_dir :: string
  write_json :: bool
  write_csv :: bool

text \<open>A call of the file system: it changes the world and is no request.\<close>

definition fs_call :: "('w \<Rightarrow> (js_error + 'a) \<times> 'w) \<Rightarrow> 'w state \<Rightarrow> (js_error + 'a) \<times> 'w state" where
  "fs_call f s = (case f (world s) of (r, w') \<Rightarrow> (r, s\<lparr>world := w'\<rparr>))"

text \<open>
  \<open>writeReports\<close>: under dry run nothing is written (the intended paths are logged).
  Otherwise the directory is made, then the JSON document, the CSV text and the summary
  text are written. Only the CSV part is inside a \<open>try\<close>: an error of json2csv or of
  writing the CSV file is logged; every other error is thrown to the caller.
\<close>

definition writeReports ::
  "'w env \<Rightarrow> ReportConfig \<Rightarrow> bool \<Rightarrow> 'w state \<Rightarrow> (js_error + unit) \<times> 'w state" where
  "writeReports ev rc dryRun s =
     (let reportDir = path_join ev (out_dir rc) (dayjs_stamp ev (world s)) in
      case (if \<not> dryRun then fs_call (fs_mkdirSync ev reportDir) s else (Inr (), s)) of
        (Inl e, s1) \<Rightarrow> (Inl e, s1)
      | (Inr _, s1) \<Rightarrow>
          (let summary = getSummary (records s1) in
           case (if write_json rc \<and> \<not> dryRun
                   then fs_call (fs_writeFileSync ev (path_join ev reportDir ''report.json'')
                                   (JsonReport dryRun summary (records s1))) s1
                 else (Inr (), s1)) of
             (Inl e, s2) \<Rightarrow> (Inl e, s2)
           | (Inr _, s2) \<Rightarrow>
               (let s3 =
                  (if write_csv rc then
                     (case jsonToCsv ev (records s2) of
                        Inl e \<Rightarrow> s2
                      | Inr csv \<Rightarrow>
                          if dryRun then s2
                          else snd (fs_call (fs_writeFileSync ev (path_join ev reportDir ''report.csv'')
                                               (CsvReport csv)) s2))
                   else s2)
                in if dryRun then (Inr (), s3)
                   else
                     (case fs_call (fs_writeFileSync ev (path_join ev reportDir ''summary.txt'')
                                      (SummaryText summary dryRun)) s3 of
                        (Inl e, s4) \<Rightarrow> (Inl e, s4)
                      | (Inr _, s4) \<Rightarrow> (Inr (), s4)))))"

section \<open>The orchestrator\<close>

record Config =
  orgs :: "(string \<times> string list) list"
  branch_patterns :: "string list"
  exclude_patterns :: "string list"
  safety :: BackupConfig
  reporting :: ReportConfig

record BranchCandidate =
  c_branchName :: string
  c_sha :: string
  c_prNumber :: "int option"
  c_mergedAt :: "string option"

text \<open>
  \<open>patterns.some(pattern => new RegExp('^' + pattern.replace('*', '.*') + '$').test(name))\<close>:
  the patterns are tried in order up to the first that matches; a pattern whose regular
  expression does not compile throws when it is reached.
\<close>

fun some_pattern ::
  "(string \<Rightarrow> string \<Rightarrow> js_error + bool) \<Rightarrow> string list \<Rightarrow> string \<Rightarrow> js_error + bool" where
  "some_pattern rt [] n = Inr False"
| "some_pattern rt (p # ps) n =
     (case rt (''^'' @ replace_first_star p @ ''$'') n of
        Inl e \<Rightarrow> Inl e
      | Inr m \<Rightarrow> if m then Inr True else some_pattern rt ps n)"

definition matchesPatterns :: "'w env \<Rightarrow> Config \<Rightarrow> string \<Rightarrow> js_error + bool" where
  "matchesPatterns ev cfg branchName = some_pattern (regexp_test ev) (branch_patterns cfg) branchName"

definition isExcluded :: "'w env \<Rightarrow> Config \<Rightarrow> string \<Rightarrow> js_error + bool" where
  "isExcluded ev cfg branchName = some_pattern (regexp_test ev) (exclude_patterns cfg) branchName"

definition candidate_of :: "MergedPR \<Rightarrow> BranchCandidate" where
  "candidate_of pr =
     \<lparr>c_branchName = headRefName pr, c_sha = headRefOid pr,
      c_prNumber = Some (pr_number pr), c_mergedAt = Some (pr_mergedAt pr)\<rparr>"

text \<open>
  The loop of \<open>findCandidates\<close>. The \<open>Map\<close> keeps its keys in insertion order, so it is
  the list of the candidates in the order their names were first set.
\<close>

fun collectCandidates ::
  "'w env \<Rightarrow> Config \<Rightarrow> string \<Rightarrow> MergedPR list \<Rightarrow> BranchCandidate list \<Rightarrow>
     js_error + BranchCandidate list" where
  "collectCandidates ev cfg db [] candidates = Inr candidates"
| "collectCandidates ev cfg db (pr # prs) candidates =
     (if baseRefName pr \<noteq> db then collectCandidates ev cfg db prs candidates
      else
        (case matchesPatterns ev cfg (headRefName pr) of
           Inl e \<Rightarrow> Inl e
         | Inr m \<Rightarrow>
             if \<not> m then collectCandidates ev cfg db prs candidates
             else
               (case isExcluded ev cfg (headRefName pr) of
                  Inl e \<Rightarrow> Inl e
                | Inr x \<Rightarrow>
                    if x then collectCandidates ev cfg db prs candidates
                    else if headRefName pr \<notin> set (map c_branchName candidates)
                      then collectCandidates ev cfg db prs (candidates @ [candidate_of pr])
                    else collectCandidates ev cfg db prs candidates)))"

definition findCandidates ::
  "'w env \<Rightarrow> Config \<Rightarrow> string \<Rightarrow> string \<Rightarrow> string \<Rightarrow> 'w state \<Rightarrow>
     (js_error + BranchCandidate list) \<times> 'w state" where
  "findCandidates ev cfg owner rp db s =
     (case getMergedPRs ev owner rp s of
        (Inl e, s1) \<Rightarrow> (Inl e, s1)
      | (Inr mergedPRs, s1) \<Rightarrow> (collectCandidates ev cfg db mergedPRs [], s1))"

definition show_int :: "int \<Rightarrow> string" where
  "show_int i = (if i < 0 then ''-'' @ decimal (nat (- i)) else decimal (nat i))"

text \<open>
  \<open>baseRecord\<close> with the two fields that \<open>processBranch\<close> fills in later: \<open>protected\<close>
  (from the branch lookup) and \<open>actionTaken\<close>.
\<close>

definition baseRecord ::
  "string \<Rightarrow> string \<Rightarrow> string \<Rightarrow> BranchCandidate \<Rightarrow> bool \<Rightarrow> ActionTaken \<Rightarrow> CleanupRecord" where
  "baseRecord owner rp db c p a =
     \<lparr>org = owner, repo = rp, branch = c_branchName c, headSha = c_sha c,
      mergedPr = c_prNumber c, mergedAt = c_mergedAt c, defaultBranch = db,
      protected = p, actionTaken = a, backupTag = [], error = []\<rparr>"

text \<open>
  The age check of \<open>processBranch\<close>: the age in days when the branch is too recent.
  \<open>if (candidate.mergedAt)\<close> is false for \<open>null\<close> and for the empty string; a NaN age
  is below no number.
\<close>

definition tooRecent :: "'w env \<Rightarrow> Config \<Rightarrow> BranchCandidate \<Rightarrow> 'w \<Rightarrow> int option" where
  "tooRecent ev cfg c w =
     (case c_mergedAt c of
        None \<Rightarrow> None
      | Some t \<Rightarrow>
          if t = [] then None
          else
            (case dayjs_diff_days ev w t of
               None \<Rightarrow> None
             | Some ageInDays \<Rightarrow>
                 if ageInDays < minimum_age_days (safety cfg) then Some ageInDays else None))"

definition processBranch ::
  "'w env \<Rightarrow> Config \<Rightarrow> bool \<Rightarrow> string \<Rightarrow> string \<Rightarrow> string \<Rightarrow> BranchCandidate \<Rightarrow> 'w state \<Rightarrow>
     (js_error + CleanupRecord) \<times> 'w state" where
  "processBranch ev cfg dryRun owner rp db c s =
     (case checkBranch ev owner rp (c_branchName c) s of
        (Inl e, s1) \<Rightarrow> (Inl e, s1)
      | (Inr branchInfo, s1) \<Rightarrow>
          if \<not> bi_exists branchInfo
            then (Inr (baseRecord owner rp db c False AlreadyDeleted), s1)
          else if bi_protected branchInfo
            then (Inr (baseRecord owner rp db c (bi_protected branchInfo) SkippedProtected), s1)
          else
            (case tooRecent ev cfg c (world s1) of
               Some ageInDays \<Rightarrow>
                 (Inr ((baseRecord owner rp db c (bi_protected branchInfo) SkippedTooRecent)
                         \<lparr>error := ''Only '' @ show_int ageInDays @ '' days old''\<rparr>), s1)
             | None \<Rightarrow>
                 (case isBranchReachable ev owner rp db (c_branchName c) s1 of
                    (Inl e, s2) \<Rightarrow> (Inl e, s2)
                  | (Inr isReachable, s2) \<Rightarrow>
                      if \<not> isReachable
                        then (Inr ((baseRecord owner rp db c (bi_protected branchInfo) SkippedUnsafe)
                                     \<lparr>error := ''Branch has commits not in default branch''\<rparr>), s2)
                      else
                        (case backupAndDelete ev (safety cfg) owner rp (c_branchName c) (c_sha c)
                                dryRun s2 of
                           (res, s3) \<Rightarrow>
                             (Inr ((baseRecord owner rp db c (bi_protected branchInfo)
                                      (result_status res))
                                     \<lparr>backupTag := result_backupTag res,
                                      error := result_error res\<rparr>), s3)))))"

text \<open>
  The loop over the candidates of one repository, with its count of blocked branches.
  The delay before each candidate changes nothing in the state and is left out.
\<close>

fun processCandidates ::
  "'w env \<Rightarrow> Config \<Rightarrow> bool \<Rightarrow> string \<Rightarrow> string \<Rightarrow> string \<Rightarrow> BranchCandidate list \<Rightarrow> nat \<Rightarrow>
     'w state \<Rightarrow> (js_error + nat) \<times> 'w state" where
  "processCandidates ev cfg dryRun owner rp db [] blockedCount s = (Inr blockedCount, s)"
| "processCandidates ev cfg dryRun owner rp db (c # cs) blockedCount s =
     (case processBranch ev cfg dryRun owner rp db c s of
        (Inl e, s1) \<Rightarrow> (Inl e, s1)
      | (Inr result, s1) \<Rightarrow>
          processCandidates ev cfg dryRun owner rp db cs
            (if actionTaken result = ProtectedRuleBlocked \<or> actionTaken result = TokenInsufficient
               then blockedCount + 1 else blockedCount)
            (addRecord result s1))"

text \<open>The body of the \<open>try\<close> block of \<open>processRepo\<close>.\<close>

definition processRepo_try ::
  "'w env \<Rightarrow> Config \<Rightarrow> bool \<Rightarrow> string \<Rightarrow> string \<Rightarrow> 'w state \<Rightarrow> (js_error + unit) \<times> 'w state" where
  "processRepo_try ev cfg dryRun owner rp s =
     (case checkPermissions ev owner rp s of
        (perms, s1) \<Rightarrow>
          if \<not> canDelete perms then (Inr (), s1)
          else
            (case getDefaultBranch ev owner rp s1 of
               (Inl e, s2) \<Rightarrow> (Inl e, s2)
             | (Inr db, s2) \<Rightarrow>
                 (case findCandidates ev cfg owner rp db s2 of
                    (Inl e, s3) \<Rightarrow> (Inl e, s3)
                  | (Inr candidates, s3) \<Rightarrow>
                      if candidates = [] then (Inr (), s3)
                      else
                        (case processCandidates ev cfg dryRun owner rp db candidates 0 s3 of
                           (Inl e, s4) \<Rightarrow> (Inl e, s4)
                         | (Inr blockedCount, s4) \<Rightarrow>
                             if \<not> autoDeleteEnabled perms then
                               (case enableAutoDelete ev owner rp dryRun s4 of
                                  (Inl e, s5) \<Rightarrow> (Inl e, s5)
                                | (Inr enabled, s5) \<Rightarrow>
                                    if \<not> enabled \<and> blockedCount > 0
                                      then (Inr (), createPermissionIssue ev owner rp
                                                      blockedCount dryRun s5)
                                    else (Inr (), s5))
                             else (Inr (), s4)))))"

text \<open>\<open>processRepo\<close>: the \<open>catch\<close> logs what the body threw and the promise resolves.\<close>

definition processRepo ::
  "'w env \<Rightarrow> Config \<Rightarrow> bool \<Rightarrow> string \<Rightarrow> string \<Rightarrow> 'w state \<Rightarrow> (js_error + unit) \<times> 'w state" where
  "processRepo ev cfg dryRun owner rp s =
     (case processRepo_try ev cfg dryRun owner rp s of
        (Inl e, s1) \<Rightarrow> (Inr (), s1)
      | (Inr u, s1) \<Rightarrow> (Inr u, s1))"

definition repo_tasks :: "Config \<Rightarrow> (string \<times> string) list" where
  "repo_tasks cfg = concat (map (\<lambda>(name, repos). map (\<lambda>r. (name, r)) repos) (orgs cfg))"


section \<open>The tasks of a run, one suspension at a time\<close>

text \<open>
  The repositories are processed by tasks that run interleaved: a task runs until its next
  \<open>await\<close>, where another task may go on. A task is therefore also given as a tree of its
  steps: it has returned, it has thrown, it does something on the state without
  suspending and goes on according to the state it found, or it is suspended at an
  \<open>await\<close>. A request is sent and answered when the task is resumed.
\<close>

datatype ('w, 'a) io =
    Ret 'a
  | Thr js_error
  | Act "'w state \<Rightarrow> 'w state" "'w state \<Rightarrow> ('w, 'a) io"
  | Await "('w, 'a) io"

primrec bind_io :: "('w, 'a) io \<Rightarrow> ('a \<Rightarrow> ('w, 'b) io) \<Rightarrow> ('w, 'b) io" where
  "bind_io (Ret a) k = k a"
| "bind_io (Thr e) k = Thr e"
| "bind_io (Act upd next) k = Act upd (\<lambda>s. bind_io (next s) k)"
| "bind_io (Await m) k = Await (bind_io m k)"

text \<open>\<open>try { m } catch (e) { h e }\<close>.\<close>

primrec catch_io :: "('w, 'a) io \<Rightarrow> (js_error \<Rightarrow> ('w, 'a) io) \<Rightarrow> ('w, 'a) io" where
  "catch_io (Ret a) h = Ret a"
| "catch_io (Thr e) h = h e"
| "catch_io (Act upd next) h = Act upd (\<lambda>s. catch_io (next s) h)"
| "catch_io (Await m) h = Await (catch_io m h)"


primrec atomic :: "('w, 'a) io \<Rightarrow> 'w state \<Rightarrow> ('w, 'a) io \<times> 'w state" where
  "atomic (Ret a) s = (Ret a, s)"
| "atomic (Thr e) s = (Thr e, s)"
| "atomic (Act upd next) s = atomic (next s) (upd s)"
| "atomic (Await m) s = (Await m, s)"

definition resume :: "('w, 'a) io \<Rightarrow> 'w state \<Rightarrow> ('w, 'a) io \<times> 'w state" where
  "resume m s = (case m of Await m' \<Rightarrow> atomic m' s | _ \<Rightarrow> (m, s))"



definition request_io :: "request \<Rightarrow> ('w \<Rightarrow> (js_error + 'a) \<times> 'w) \<Rightarrow> ('w, 'a) io" where
  "request_io rq f =
     Await (Act (\<lambda>s. s\<lparr>world := snd (f (world s)), calls := calls s @ [rq]\<rparr>)
                (\<lambda>s. case fst (f (world s)) of Inl e \<Rightarrow> Thr e | Inr a \<Rightarrow> Ret a))"

text \<open>
  \<open>await m\<close>: once \<open>m\<close> has returned, the task is suspended before it goes on with the
  value. A request is thus in flight at one suspension and its answer is delivered at the
  next.
\<close>

definition await_io :: "('w, 'a) io \<Rightarrow> ('w, 'a) io" where
  "await_io m = bind_io m (\<lambda>a. Await (Ret a))"

text \<open>
  The functions of the client, of the permissions handler, of backup-and-delete and of the
  orchestrator once more, \<open>await\<close> by \<open>await\<close>. Run alone they are the functions above
  (proved below). As above, the iteration over the pages of the merged pull requests is
  one request, answered with all pages.
\<close>

definition getDefaultBranch_io :: "'w env \<Rightarrow> string \<Rightarrow> string \<Rightarrow> ('w, string) io" where
  "getDefaultBranch_io ev owner rp =
     bind_io (await_io (request_io (GetRepo owner rp) (api_get_repo ev owner rp)))
       (\<lambda>d. Ret (default_branch d))"

definition getMergedPRs_io :: "'w env \<Rightarrow> string \<Rightarrow> string \<Rightarrow> ('w, MergedPR list) io" where
  "getMergedPRs_io ev owner rp =
     bind_io (await_io (request_io (GraphQLMergedPRs owner rp) (api_merged_prs ev owner rp)))
       (\<lambda>pages. Ret (concat pages))"

definition checkBranch_io :: "'w env \<Rightarrow> string \<Rightarrow> string \<Rightarrow> string \<Rightarrow> ('w, BranchInfo) io" where
  "checkBranch_io ev owner rp b =
     catch_io
       (bind_io (await_io (request_io (GetBranch owner rp b) (api_get_branch ev owner rp b)))
          (\<lambda>p. Ret \<lparr>bi_name = b, bi_protected = p, bi_exists = True\<rparr>))
       (\<lambda>e. if err_status e = Some 404
              then Ret \<lparr>bi_name = b, bi_protected = False, bi_exists = False\<rparr>
            else Thr e)"

definition compareCommits_io ::
  "'w env \<Rightarrow> string \<Rightarrow> string \<Rightarrow> string \<Rightarrow> string \<Rightarrow> ('w, CompareResult) io" where
  "compareCommits_io ev owner rp base hd_ref =
     catch_io
       (bind_io (await_io (request_io (GetCompare owner rp (base @ ''...'' @ hd_ref))
                             (api_compare ev owner rp (base @ ''...'' @ hd_ref))))
          (\<lambda>d. Ret \<lparr>cr_status = cr_status d, ahead_by = ahead_by d, behind_by = behind_by d\<rparr>))
       (\<lambda>e. if err_status e = Some 404
              then Ret \<lparr>cr_status = ''diverged'', ahead_by = 0, behind_by = 0\<rparr>
            else Thr e)"

definition isBranchReachable_io ::
  "'w env \<Rightarrow> string \<Rightarrow> string \<Rightarrow> string \<Rightarrow> string \<Rightarrow> ('w, bool) io" where
  "isBranchReachable_io ev owner rp base hd_ref =
     bind_io (await_io (compareCommits_io ev owner rp base hd_ref))
       (\<lambda>r. Ret (cr_status r = ''behind'' \<or> cr_status r = ''identical''))"

definition checkPermissions_io ::
  "'w env \<Rightarrow> string \<Rightarrow> string \<Rightarrow> ('w, PermissionCheckResult) io" where
  "checkPermissions_io ev owner rp =
     catch_io
       (bind_io (await_io (request_io (GetRepo owner rp) (api_get_repo ev owner rp)))
          (\<lambda>d. Ret \<lparr>canDelete = (perm_push d = Some True),
                     canAdmin = (perm_admin d = Some True),
                     autoDeleteEnabled = (delete_branch_on_merge d = Some True),
                     perm_error = None\<rparr>))
       (\<lambda>e. Ret \<lparr>canDelete = False, canAdmin = False, autoDeleteEnabled = False,
                  perm_error = err_message e\<rparr>)"

definition enableAutoDelete_io :: "'w env \<Rightarrow> string \<Rightarrow> string \<Rightarrow> bool \<Rightarrow> ('w, bool) io" where
  "enableAutoDelete_io ev owner rp dryRun =
     (if dryRun then Ret True
      else
        catch_io
          (bind_io (await_io (request_io (PatchRepo owner rp) (api_patch_repo ev owner rp)))
             (\<lambda>_. Ret True))
          (\<lambda>e. if err_status e = Some 403 then Ret False else Thr e))"

definition cache_issue :: "string \<Rightarrow> ('w, unit) io" where
  "cache_issue issueKey =
     Act (\<lambda>s. s\<lparr>issueCache := insert issueKey (issueCache s)\<rparr>) (\<lambda>s. Ret ())"

definition createPermissionIssue_io ::
  "'w env \<Rightarrow> string \<Rightarrow> string \<Rightarrow> nat \<Rightarrow> bool \<Rightarrow> ('w, unit) io" where
  "createPermissionIssue_io ev owner rp blockedCount dryRun =
     Act (\<lambda>s. s)
       (\<lambda>s. let issueKey = owner @ ''/'' @ rp in
            if issueKey \<in> issueCache s then Ret ()
            else if dryRun then cache_issue issueKey
            else
              catch_io
                (bind_io (await_io (request_io (GetIssues owner rp) (api_get_issues ev owner rp)))
                   (\<lambda>existingIssues.
                      if issue_title \<in> set existingIssues then cache_issue issueKey
                      else
                        bind_io (await_io (request_io (PostIssue owner rp issue_title)
                                             (api_post_issue ev owner rp issue_title)))
                          (\<lambda>_. cache_issue issueKey)))
                (\<lambda>e. Ret ()))"

definition createBackupTag_io ::
  "'w env \<Rightarrow> BackupConfig \<Rightarrow> string \<Rightarrow> string \<Rightarrow> string \<Rightarrow> string \<Rightarrow> ('w, string) io" where
  "createBackupTag_io ev cfg owner rp branchName sha =
     Act (\<lambda>s. s)
       (\<lambda>s. let tagName = getBackupTagName cfg (dayjs_today ev (world s)) branchName in
            bind_io (await_io (request_io (PostGitTag owner rp tagName sha)
                                 (api_post_tag ev owner rp tagName sha)))
              (\<lambda>tagObjectSha.
                 bind_io (await_io (request_io (PostGitRef owner rp (''refs/tags/'' @ tagName) tagObjectSha)
                                      (api_post_ref ev owner rp (''refs/tags/'' @ tagName)
                                         tagObjectSha)))
                   (\<lambda>_. Ret tagName)))"

definition deleteBranch_io :: "'w env \<Rightarrow> string \<Rightarrow> string \<Rightarrow> string \<Rightarrow> ('w, unit) io" where
  "deleteBranch_io ev owner rp branchName =
     await_io (request_io (DeleteGitRef owner rp (''heads/'' @ branchName))
                 (api_delete_ref ev owner rp (''heads/'' @ branchName)))"

definition backupAndDelete_io ::
  "'w env \<Rightarrow> BackupConfig \<Rightarrow> string \<Rightarrow> string \<Rightarrow> string \<Rightarrow> string \<Rightarrow> bool \<Rightarrow>
     ('w, DeletionResult) io" where
  "backupAndDelete_io ev cfg owner rp branchName sha dryRun =
     catch_io
       (bind_io
          (if create_backup_tag cfg \<and> \<not> dryRun
             then await_io (createBackupTag_io ev cfg owner rp branchName sha)
           else if create_backup_tag cfg \<and> dryRun
             then Act (\<lambda>s. s)
                    (\<lambda>s. Ret (getBackupTagName cfg (dayjs_today ev (world s)) branchName))
           else Ret [])
          (\<lambda>tag. if \<not> dryRun
                   then bind_io (await_io (deleteBranch_io ev owner rp branchName))
                          (\<lambda>_. Ret (ResDeleted tag))
                 else Ret (ResDeleted tag)))
       (\<lambda>e. Ret (handleDeletionError e))"

definition findCandidates_io ::
  "'w env \<Rightarrow> Config \<Rightarrow> string \<Rightarrow> string \<Rightarrow> string \<Rightarrow> ('w, BranchCandidate list) io" where
  "findCandidates_io ev cfg owner rp db =
     bind_io (await_io (getMergedPRs_io ev owner rp))
       (\<lambda>mergedPRs. case collectCandidates ev cfg db mergedPRs [] of
                       Inl e \<Rightarrow> Thr e
                     | Inr candidates \<Rightarrow> Ret candidates)"

definition processBranch_io ::
  "'w env \<Rightarrow> Config \<Rightarrow> bool \<Rightarrow> string \<Rightarrow> string \<Rightarrow> string \<Rightarrow> BranchCandidate \<Rightarrow>
     ('w, CleanupRecord) io" where
  "processBranch_io ev cfg dryRun owner rp db c =
     bind_io (await_io (checkBranch_io ev owner rp (c_branchName c)))
       (\<lambda>branchInfo.
          if \<not> bi_exists branchInfo
            then Ret (baseRecord owner rp db c False AlreadyDeleted)
          else if bi_protected branchInfo
            then Ret (baseRecord owner rp db c (bi_protected branchInfo) SkippedProtected)
          else
            Act (\<lambda>s. s)
              (\<lambda>s. case tooRecent ev cfg c (world s) of
                     Some ageInDays \<Rightarrow>
                       Ret ((baseRecord owner rp db c (bi_protected branchInfo) SkippedTooRecent)
                              \<lparr>error := ''Only '' @ show_int ageInDays @ '' days old''\<rparr>)
                   | None \<Rightarrow>
                       bind_io (await_io (isBranchReachable_io ev owner rp db (c_branchName c)))
                         (\<lambda>isReachable.
                            if \<not> isReachable
                              then Ret ((baseRecord owner rp db c (bi_protected branchInfo)
                                           SkippedUnsafe)
                                          \<lparr>error := ''Branch has commits not in default branch''\<rparr>)
                            else
                              bind_io (await_io (backupAndDelete_io ev (safety cfg) owner rp
                                                   (c_branchName c) (c_sha c) dryRun))
                                (\<lambda>res. Ret ((baseRecord owner rp db c (bi_protected branchInfo)
                                               (result_status res))
                                              \<lparr>backupTag := result_backupTag res,
                                               error := result_error res\<rparr>)))))"

text \<open>
  The loop over the candidates; \<open>await this.delay(ms)\<close> is a suspension and no more.
\<close>

fun processCandidates_io ::
  "'w env \<Rightarrow> Config \<Rightarrow> bool \<Rightarrow> string \<Rightarrow> string \<Rightarrow> string \<Rightarrow> BranchCandidate list \<Rightarrow> nat \<Rightarrow>
     ('w, nat) io" where
  "processCandidates_io ev cfg dryRun owner rp db [] blockedCount = Ret blockedCount"
| "processCandidates_io ev cfg dryRun owner rp db (c # cs) blockedCount =
     Await
       (bind_io (await_io (processBranch_io ev cfg dryRun owner rp db c))
          (\<lambda>result.
             Act (addRecord result)
               (\<lambda>s. processCandidates_io ev cfg dryRun owner rp db cs
                      (if actionTaken result = ProtectedRuleBlocked \<or>
                          actionTaken result = TokenInsufficient
                         then blockedCount + 1 else blockedCount))))"

definition processRepo_io :: "'w env \<Rightarrow> Config \<Rightarrow> bool \<Rightarrow> string \<Rightarrow> string \<Rightarrow> ('w, unit) io" where
  "processRepo_io ev cfg dryRun owner rp =
     catch_io
       (bind_io (await_io (checkPermissions_io ev owner rp))
          (\<lambda>perms.
             if \<not> canDelete perms then Ret ()
             else
               bind_io (await_io (getDefaultBranch_io ev owner rp))
                 (\<lambda>db.
                    bind_io (await_io (findCandidates_io ev cfg owner rp db))
                      (\<lambda>candidates.
                         if candidates = [] then Ret ()
                         else
                           bind_io (processCandidates_io ev cfg dryRun owner rp db candidates 0)
                             (\<lambda>blockedCount.
                                if \<not> autoDeleteEnabled perms then
                                  bind_io (await_io (enableAutoDelete_io ev owner rp dryRun))
                                    (\<lambda>enabled.
                                       if \<not> enabled \<and> blockedCount > 0
                                         then await_io (createPermissionIssue_io ev owner rp
                                                          blockedCount dryRun)
                                       else Ret ())
                                else Ret ())))))
       (\<lambda>e. Ret ())"

text \<open>
  The pool of tasks under a schedule: the list of the tasks resumed, one after the other.
  Every interleaving that \<open>p-limit\<close> allows, for any concurrency limit, is such a list. A
  task that is not suspended is left as it is. A rejected task rejects \<open>Promise.all\<close> and
  \<open>main\<close> ends the process, so that nothing is resumed after it.
\<close>

fun rejected :: "('w, 'a) io \<Rightarrow> bool" where
  "rejected (Thr e) = True"
| "rejected _ = False"

fun resolved :: "('w, 'a) io \<Rightarrow> bool" where
  "resolved (Ret a) = True"
| "resolved _ = False"

fun run_schedule ::
  "nat list \<Rightarrow> ('w, 'a) io list \<Rightarrow> 'w state \<Rightarrow> ('w, 'a) io list \<times> 'w state" where
  "run_schedule [] ts s = (ts, s)"
| "run_schedule (i # sched) ts s =
     (if i < length ts \<and> \<not> list_ex rejected ts
        then (case resume (ts ! i) s of (m, s1) \<Rightarrow> run_schedule sched (ts[i := m]) s1)
      else run_schedule sched ts s)"

definition tasks_of :: "'w env \<Rightarrow> Config \<Rightarrow> bool \<Rightarrow> ('w, unit) io list" where
  "tasks_of ev cfg dryRun =
     map (\<lambda>(owner, rp). Await (processRepo_io ev cfg dryRun owner rp)) (repo_tasks cfg)"

text \<open>
  \<open>run\<close> under \<open>main\<close>, for a schedule: the exit code of the process and the final state,
  or nothing when tasks are still suspended at the end of the schedule. When a task has
  rejected, or when \<open>writeReports\<close> throws, \<open>main\<close> catches the error and exits with code
  1; otherwise the exit code is 1 exactly when a record has the action \<open>Error\<close>.
\<close>

definition run ::
  "'w env \<Rightarrow> Config \<Rightarrow> bool \<Rightarrow> nat list \<Rightarrow> 'w state \<Rightarrow> (nat \<times> 'w state) option" where
  "run ev cfg dryRun sched s =
     (case run_schedule sched (tasks_of ev cfg dryRun) s of
        (ts, s1) \<Rightarrow>
          if list_ex rejected ts then Some (1, s1)
          else if list_all resolved ts then
            (case writeReports ev (reporting cfg) dryRun s1 of
               (Inl e, s2) \<Rightarrow> Some (1, s2)
             | (Inr _, s2) \<Rightarrow> Some (if hasErrors (records s2) then 1 else 0, s2))
          else None)"

section \<open>Notions used in the statements\<close>

text \<open>
  The claim's words, for comparison: among the pull requests with a given head branch
  name, the one merged most recently (timestamps in the ISO format compare as strings).
\<close>

definition spec_most_recently_merged :: "MergedPR list \<Rightarrow> string \<Rightarrow> MergedPR option" where
  "spec_most_recently_merged prs n =
     (case filter (\<lambda>p. headRefName p = n) prs of
        [] \<Rightarrow> None
      | p # ps \<Rightarrow> Some (foldl (\<lambda>a b. if pr_mergedAt a < pr_mergedAt b then b else a) p ps))"



section \<open>A small hosting service, for the examples\<close>

text \<open>
  A repository in memory that answers the requests as the hosting service does: its
  branches (with their protection), the tag references created so far, the merged
  pull requests, the open issues, the answers of the clock, the paths of the files
  written and the number of requests that a rate limit still lets through. A reference
  that exists
  cannot be created again and a branch that is gone cannot be deleted (both 422); a
  branch lookup or a comparison of something unknown is a 404.
\<close>

record host =
  h_default :: string
  h_push :: bool
  h_admin :: bool
  h_auto_delete :: bool
  h_heads :: "(string \<times> bool) list"
  h_compare :: "(string \<times> string) list"
  h_refs :: "string list"
  h_prs :: "MergedPR list list"
  h_issues :: "string list"
  h_issues_enabled :: bool
  h_today :: date
  h_ages :: "(string \<times> int) list"
  h_stamp :: string
  h_files :: "string list"
  h_quota :: nat

definition http_error :: "int \<Rightarrow> string \<Rightarrow> js_error" where
  "http_error st msg = \<lparr>err_status = Some st, err_message = Some msg, err_string = ''HttpError: '' @ msg\<rparr>"

text \<open>
  A matcher for the regular expressions \<open>^body$\<close> whose body is made of letters, digits,
  \<open>/\<close>, \<open>-\<close>, \<open>_\<close>, the dot and the star after one of these. The dot matches every
  character but a line terminator. Other sources are outside what the examples use and are
  answered with an error.
\<close>

definition rx_char :: "char \<Rightarrow> char \<Rightarrow> bool" where
  "rx_char c x = (if c = CHR ''.'' then x \<noteq> CHR 0x0A \<and> x \<noteq> CHR 0x0D else c = x)"

fun rx_match :: "string \<Rightarrow> string \<Rightarrow> bool" where
  "rx_match [] s = (s = [])"
| "rx_match [c] s = (case s of [] \<Rightarrow> False | x # xs \<Rightarrow> rx_char c x \<and> xs = [])"
| "rx_match (c # d # p) s =
     (if d = CHR ''*''
        then (rx_match p s \<or>
              (case s of [] \<Rightarrow> False | x # xs \<Rightarrow> rx_char c x \<and> rx_match (c # d # p) xs))
      else (case s of [] \<Rightarrow> False | x # xs \<Rightarrow> rx_char c x \<and> rx_match (d # p) xs))"

fun rx_body_ok :: "string \<Rightarrow> bool" where
  "rx_body_ok [] = True"
| "rx_body_ok [c] =
     (c \<in> set ''abcdefghijklmnopqrstuvwxyzABCDEFGHIJKLMNOPQRSTUVWXYZ0123456789/-_.'')"
| "rx_body_ok (c # d # p) =
     (c \<in> set ''abcdefghijklmnopqrstuvwxyzABCDEFGHIJKLMNOPQRSTUVWXYZ0123456789/-_.'' \<and>
      (if d = CHR ''*'' then rx_body_ok p else rx_body_ok (d # p)))"

definition simple_regexp_test :: "string \<Rightarrow> string \<Rightarrow> js_error + bool" where
  "simple_regexp_test src s =
     (case src of
        [] \<Rightarrow> Inr True
      | a # rest \<Rightarrow>
          if a = CHR ''^'' \<and> rest \<noteq> [] \<and> last rest = CHR ''$'' \<and> rx_body_ok (butlast rest)
            then Inr (rx_match (butlast rest) s)
          else Inl \<lparr>err_status = None, err_message = Some ''unsupported regular expression'',
                    err_string = ''SyntaxError: unsupported regular expression''\<rparr>)"

definition host_env :: "host env" where
  "host_env =
     \<lparr>api_get_repo = (\<lambda>owner rp w.
        (Inr \<lparr>perm_push = Some (h_push w), perm_admin = Some (h_admin w),
              delete_branch_on_merge = Some (h_auto_delete w),
              default_branch = h_default w\<rparr>, w)),
      api_merged_prs = (\<lambda>owner rp w. (Inr (h_prs w), w)),
      api_get_branch = (\<lambda>owner rp b w.
        (case map_of (h_heads w) b of
           None \<Rightarrow> (Inl (http_error 404 ''Branch not found''), w)
         | Some p \<Rightarrow> (Inr p, w))),
      api_compare = (\<lambda>owner rp basehead w.
        (case map_of (h_compare w) basehead of
           None \<Rightarrow> (Inl (http_error 404 ''Not Found''), w)
         | Some st \<Rightarrow> (Inr \<lparr>cr_status = st, ahead_by = 0, behind_by = 0\<rparr>, w))),
      api_post_tag = (\<lambda>owner rp tag obj w. (Inr (''tagobject-'' @ obj), w)),
      api_post_ref = (\<lambda>owner rp ref sha w.
        if ref \<in> set (h_refs w)
          then (Inl (http_error 422 ''Reference already exists''), w)
        else (Inr (), w\<lparr>h_refs := h_refs w @ [ref]\<rparr>)),
      api_delete_ref = (\<lambda>owner rp ref w.
        (case map_of (h_heads w) (drop 6 ref) of
           None \<Rightarrow> (Inl (http_error 422 ''Reference does not exist''), w)
         | Some p \<Rightarrow>
             if p then (Inl (http_error 403 ''Cannot delete this protected branch''), w)
             else if \<not> h_push w
               then (Inl (http_error 403 ''Resource not accessible by integration''), w)
             else (Inr (), w\<lparr>h_heads := filter (\<lambda>(n, _). n \<noteq> drop 6 ref) (h_heads w)\<rparr>))),
      api_patch_repo = (\<lambda>owner rp w.
        if h_admin w then (Inr (), w\<lparr>h_auto_delete := True\<rparr>)
        else (Inl (http_error 403 ''Must have admin rights to Repository.''), w)),
      api_get_issues = (\<lambda>owner rp w. (Inr (h_issues w), w)),
      api_post_issue = (\<lambda>owner rp title w.
        if h_issues_enabled w then (Inr (), w\<lparr>h_issues := h_issues w @ [title]\<rparr>)
        else (Inl (http_error 410 ''Issues are disabled for this repo''), w)),
      dayjs_today = h_today,
      dayjs_diff_days = (\<lambda>w t. map_of (h_ages w) t),
      regexp_test = simple_regexp_test,
      dayjs_stamp = h_stamp,
      path_join = (\<lambda>a b. a @ ''/'' @ b),
      fs_mkdirSync = (\<lambda>path w. (Inr (), w)),
      fs_writeFileSync = (\<lambda>path content w. (Inr (), w\<lparr>h_files := h_files w @ [path]\<rparr>)),
      jsonToCsv = (\<lambda>rs. Inr (concat (map (\<lambda>r. branch r @ [CHR 0x0A]) rs)))\<rparr>"

text \<open>
  The repository of the examples: default branch \<open>main\<close>; the merged branch
  \<open>claude/fix-1\<close> (unprotected, behind \<open>main\<close>, merged ten days ago) still exists, the
  merged branch \<open>claude/gone\<close> does not.
\<close>

definition host0 :: host where
  "host0 =
     \<lparr>h_default = ''main'', h_push = True, h_admin = True, h_auto_delete = False,
      h_heads = [(''main'', True), (''claude/fix-1'', False)],
      h_compare = [(''main...claude/fix-1'', ''behind'')],
      h_refs = [],
      h_prs = [ [\<lparr>pr_number = 12, pr_mergedAt = ''2024-05-01T10:00:00Z'',
                 headRefName = ''claude/fix-1'', headRefOid = ''abc123'', baseRefName = ''main''\<rparr>,
                \<lparr>pr_number = 9, pr_mergedAt = ''2024-04-20T10:00:00Z'',
                 headRefName = ''claude/gone'', headRefOid = ''def456'', baseRefName = ''main''\<rparr>] ],
      h_issues = [],
      h_issues_enabled = True,
      h_today = \<lparr>d_year = 2024, d_month = 5, d_day = 11\<rparr>,
      h_ages = [(''2024-05-01T10:00:00Z'', 10), (''2024-04-20T10:00:00Z'', 21)],
      h_stamp = ''2024-05-11-031700'',
      h_files = [],
      h_quota = 1\<rparr>"

definition config0 :: Config where
  "config0 =
     \<lparr>orgs = [(''acme'', [''tools''])],
      branch_patterns = [''claude/*'', ''bot/*''],
      exclude_patterns = [''claude/keep-*''],
      safety = \<lparr>create_backup_tag = True, backup_tag_prefix = ''cleanup-backup'',
                backup_ttl_days = 30, minimum_age_days = 7\<rparr>,
      reporting = \<lparr>out_dir = ''ops/reports/branch-cleanup'', write_json = True,
                   write_csv = True\<rparr>\<rparr>"

definition state0 :: "host \<Rightarrow> host state" where
  "state0 w = \<lparr>world = w, calls = [], issueCache = {}, records = []\<rparr>"

text \<open>
  A second repository: the merged branch \<open>claude/keep-1\<close>, whose name matches the exclude
  pattern \<open>claude/keep-*\<close>, still exists, unprotected and behind \<open>main\<close>. Then the
  candidates of the examples.
\<close>

definition host1 :: host where
  "host1 = host0\<lparr>h_heads := [(''main'', True), (''claude/keep-1'', False)],
                 h_compare := [(''main...claude/keep-1'', ''behind'')],
                 h_prs := [ [\<lparr>pr_number = 20, pr_mergedAt = ''2024-05-01T10:00:00Z'',
                            headRefName = ''claude/keep-1'', headRefOid = ''aaa111'',
                            baseRefName = ''main''\<rparr>] ]\<rparr>"

definition cand_keep :: BranchCandidate where
  "cand_keep = \<lparr>c_branchName = ''claude/keep-1'', c_sha = ''aaa111'', c_prNumber = Some 20,
                 c_mergedAt = Some ''2024-05-01T10:00:00Z''\<rparr>"

definition cand_undated :: BranchCandidate where
  "cand_undated = \<lparr>c_branchName = ''claude/fix-1'', c_sha = ''abc123'', c_prNumber = None,
                 c_mergedAt = None\<rparr>"

definition cand_gone :: BranchCandidate where
  "cand_gone = \<lparr>c_branchName = ''claude/gone'', c_sha = ''def456'', c_prNumber = Some 9,
                 c_mergedAt = Some ''2024-04-20T10:00:00Z''\<rparr>"

text \<open>Two records of the reporter.\<close>

definition rec_deleted :: CleanupRecord where
  "rec_deleted =
     \<lparr>org = ''acme'', repo = ''tools'', branch = ''claude/fix-1'', headSha = ''abc123'',
      mergedPr = Some 12, mergedAt = Some ''2024-05-01T10:00:00Z'', defaultBranch = ''main'',
      protected = False, actionTaken = Deleted,
      backupTag = ''cleanup-backup/claude-fix-1/20240511'', error = []\<rparr>"

definition rec_gone :: CleanupRecord where
  "rec_gone =
     \<lparr>org = ''acme'', repo = ''site'', branch = ''claude/gone'', headSha = ''def456'',
      mergedPr = Some 9, mergedAt = Some ''2024-04-20T10:00:00Z'', defaultBranch = ''main'',
      protected = False, actionTaken = AlreadyDeleted, backupTag = [], error = []\<rparr>"

text \<open>
  A third repository: two merged pull requests from the same head branch
  \<open>claude/fix-1\<close>. The enumeration (most recently updated first) lists number 7, merged
  on 1 March, before number 9, merged on 1 May.
\<close>

definition pr7 :: MergedPR where
  "pr7 = \<lparr>pr_number = 7, pr_mergedAt = ''2024-03-01T10:00:00Z'', headRefName = ''claude/fix-1'',
          headRefOid = ''old111'', baseRefName = ''main''\<rparr>"

definition pr9 :: MergedPR where
  "pr9 = \<lparr>pr_number = 9, pr_mergedAt = ''2024-05-01T10:00:00Z'', headRefName = ''claude/fix-1'',
          headRefOid = ''abc123'', baseRefName = ''main''\<rparr>"

definition host2 :: host where
  "host2 = host0\<lparr>h_prs := [ [pr7, pr9] ],
                 h_ages := [(''2024-05-01T10:00:00Z'', 10), (''2024-03-01T10:00:00Z'', 71)]\<rparr>"






section \<open>Evaluation on the examples\<close>

lemmas host_simps = host_env_def host0_def config0_def state0_def http_error_def
  octokit_request_def

lemmas eval_simps = host_simps Let_def
  checkBranch_def compareCommits_def isBranchReachable_def getDefaultBranch_def getMergedPRs_def
  processBranch_def tooRecent_def baseRecord_def
  backupAndDelete_def backupAndDelete_try_def createBackupTag_def deleteBranch_def
  getBackupTagName_def replace_slashes_def format_YYYYMMDD_def padStart_def decimal.simps digit_def
  handleDeletionError_def status_or_zero_def message_or_string_def toLowerCase_def toLowerChar_def
  matchesPatterns_def isExcluded_def simple_regexp_test_def rx_char_def candidate_of_def
  findCandidates_def

section \<open>Backup tag names\<close>

lemma digit_0: "digit 0 = CHR ''0''"
  by (simp add: digit_def)

lemma decimal_lt10: "n < 10 \<Longrightarrow> decimal n = [digit n]"
  by (simp add: decimal.simps)

lemma decimal_lt100: "10 \<le> n \<Longrightarrow> n < 100 \<Longrightarrow> decimal n = [digit (n div 10), digit n]"
  by (subst decimal.simps) (simp add: decimal_lt10)

lemma decimal_lt1000:
  "100 \<le> n \<Longrightarrow> n < 1000 \<Longrightarrow> decimal n = [digit (n div 100), digit (n div 10), digit n]"
  by (subst decimal.simps) (simp add: decimal_lt100 div_mult2_eq[symmetric])

lemma decimal_lt10000:
  "1000 \<le> n \<Longrightarrow> n < 10000 \<Longrightarrow>
     decimal n = [digit (n div 1000), digit (n div 100), digit (n div 10), digit n]"
  by (subst decimal.simps) (simp add: decimal_lt1000 div_mult2_eq[symmetric])

lemma replicate_2: "replicate 2 c = [c, c]"
  by (simp add: numeral_2_eq_2)

lemma replicate_3: "replicate 3 c = [c, c, c]"
  by (simp add: numeral_3_eq_3)

lemma pad2: "n < 100 \<Longrightarrow> padStart 2 (CHR ''0'') (decimal n) = [digit (n div 10), digit n]"
  by (cases "n < 10") (simp_all add: padStart_def decimal_lt10 decimal_lt100 digit_0)

lemma pad4:
  "n < 10000 \<Longrightarrow>
     padStart 4 (CHR ''0'') (decimal n) =
       [digit (n div 1000), digit (n div 100), digit (n div 10), digit n]"
proof -
  assume n: "n < 10000"
  consider "n < 10" | "10 \<le> n" "n < 100" | "100 \<le> n" "n < 1000" | "1000 \<le> n"
    by linarith
  then show ?thesis
  proof cases
    case 1 then show ?thesis by (simp add: padStart_def decimal_lt10 digit_0 replicate_3)
  next
    case 2 then show ?thesis by (simp add: padStart_def decimal_lt100 digit_0 replicate_2)
  next
    case 3 then show ?thesis by (simp add: padStart_def decimal_lt1000 digit_0)
  next
    case 4 with n show ?thesis by (simp add: padStart_def decimal_lt10000)
  qed
qed

lemma format_YYYYMMDD_digits:
  "d_year d < 10000 \<Longrightarrow> d_month d < 100 \<Longrightarrow> d_day d < 100 \<Longrightarrow>
     format_YYYYMMDD d =
       [digit (d_year d div 1000), digit (d_year d div 100), digit (d_year d div 10),
        digit (d_year d), digit (d_month d div 10), digit (d_month d),
        digit (d_day d div 10), digit (d_day d)]"
  by (simp add: format_YYYYMMDD_def pad2 pad4)

section \<open>Backup and delete\<close>


lemma backupAndDelete_try_dryRun:
  "backupAndDelete_try ev cfg owner rp b sha True s =
     (Inr (if create_backup_tag cfg then getBackupTagName cfg (dayjs_today ev (world s)) b else []), s)"
  by (simp add: backupAndDelete_try_def)



text \<open>
  C6. With \<open>dryRun = true\<close>, \<open>backupAndDelete\<close> leaves the whole state as it was: no
  request is added to the trace and the world is unchanged. When \<open>create_backup_tag\<close> is
  set, the outcome is \<open>Deleted\<close> with the tag name made of the prefix, a slash, the branch
  name with every slash replaced by a dash, a slash, and the eight digits of the current
  date (for a year of at most four digits).
\<close>

theorem backupAndDelete_dryRun:
  assumes "d = dayjs_today ev (world s)"
  shows "snd (backupAndDelete ev cfg owner rp b sha True s) = s \<and>
         (create_backup_tag cfg \<and> d_year d < 10000 \<and> d_month d < 100 \<and> d_day d < 100 \<longrightarrow>
            fst (backupAndDelete ev cfg owner rp b sha True s) =
              ResDeleted (backup_tag_prefix cfg @ ''/'' @
                          map (\<lambda>c. if c = CHR ''/'' then CHR ''-'' else c) b @ ''/'' @
                          [digit (d_year d div 1000), digit (d_year d div 100),
                           digit (d_year d div 10), digit (d_year d),
                           digit (d_month d div 10), digit (d_month d),
                           digit (d_day d div 10), digit (d_day d)]))"
  using assms
  by (simp add: backupAndDelete_def backupAndDelete_try_dryRun getBackupTagName_def
      replace_slashes_def format_YYYYMMDD_digits)

theorem backupAndDelete_dryRun_witness:
  "snd (backupAndDelete host_env (safety config0) ''acme'' ''tools'' ''claude/fix-1'' ''abc123'' True
          (state0 host0)) = state0 host0 \<and>
   fst (backupAndDelete host_env (safety config0) ''acme'' ''tools'' ''claude/fix-1'' ''abc123'' True
          (state0 host0)) = ResDeleted ''cleanup-backup/claude-fix-1/20240511''"
  using backupAndDelete_dryRun [of "h_today host0" host_env "state0 host0" "safety config0"
      "''acme''" "''tools''" "''claude/fix-1''" "''abc123''"]
  by (simp add: host_simps digit_def)

section \<open>The evaluation of one candidate\<close>

lemma checkBranch_calls:
  "checkBranch ev owner rp b s = (r, s1) \<Longrightarrow> calls s1 = calls s @ [GetBranch owner rp b]"
  by (auto simp: checkBranch_def octokit_request_def split: prod.splits sum.splits if_splits)

text \<open>
  C1. When the lookup of the branch answers that it does not exist, \<open>processBranch\<close>
  records \<open>AlreadyDeleted\<close> whatever the candidate, the configuration (minimum age,
  patterns) and the dry-run flag are; the lookup is the only request it sends, so no
  mutating request is made.
\<close>

theorem missing_branch_AlreadyDeleted:
  assumes "checkBranch ev owner rp (c_branchName c) s = (Inr bi, s1)" and "\<not> bi_exists bi"
  shows "processBranch ev cfg dryRun owner rp db c s =
           (Inr (baseRecord owner rp db c False AlreadyDeleted), s1) \<and>
         actionTaken (baseRecord owner rp db c False AlreadyDeleted) = AlreadyDeleted \<and>
         calls s1 = calls s @ [GetBranch owner rp (c_branchName c)] \<and>
         filter mutating (calls s1) = filter mutating (calls s)"
  using assms checkBranch_calls [OF assms(1)]
  by (simp add: processBranch_def baseRecord_def)

theorem missing_branch_AlreadyDeleted_witness:
  "map_sum id actionTaken
     (fst (processBranch host_env config0 False ''acme'' ''tools'' ''main'' cand_gone (state0 host0)))
     = Inr AlreadyDeleted \<and>
   calls (snd (processBranch host_env config0 False ''acme'' ''tools'' ''main'' cand_gone
                 (state0 host0))) = [GetBranch ''acme'' ''tools'' ''claude/gone'']"
proof -
  let ?cb = "checkBranch host_env ''acme'' ''tools'' (c_branchName cand_gone) (state0 host0)"
  have h: "?cb = (Inr \<lparr>bi_name = ''claude/gone'', bi_protected = False, bi_exists = False\<rparr>, snd ?cb)"
    by (simp add: eval_simps cand_gone_def)
  have c: "calls (state0 host0) = []" by (simp add: state0_def)
  from missing_branch_AlreadyDeleted [OF h, of config0 False "''main''"] show ?thesis
    by (simp add: c cand_gone_def)
qed


lemma isBranchReachable_compare:
  "compareCommits ev owner rp db b s1 = (Inr cr, s2) \<Longrightarrow>
   isBranchReachable ev owner rp db b s1 =
     (Inr (cr_status cr = ''behind'' \<or> cr_status cr = ''identical''), s2)"
  by (simp add: isBranchReachable_def)

text \<open>
  C9. For a branch that exists and is not protected: when the candidate has no merge
  timestamp and the comparison says \<open>behind\<close> or \<open>identical\<close>, \<open>processBranch\<close> goes on
  to \<open>backupAndDelete\<close> and records its outcome, whatever \<open>minimum_age_days\<close> is; when
  the timestamp is present and its age is below \<open>minimum_age_days\<close>, the record is
  \<open>SkippedTooRecent\<close> and nothing more is sent.
\<close>

theorem null_mergedAt_skips_age_gate:
  assumes "checkBranch ev owner rp (c_branchName c) s = (Inr bi, s1)"
    and "bi_exists bi" and "\<not> bi_protected bi"
  shows "(c_mergedAt c = None \<and>
          compareCommits ev owner rp db (c_branchName c) s1 = (Inr cr, s2) \<and>
          (cr_status cr = ''behind'' \<or> cr_status cr = ''identical'') \<and>
          backupAndDelete ev (safety cfg) owner rp (c_branchName c) (c_sha c) dryRun s2 = (res, s3)
          \<longrightarrow> processBranch ev cfg dryRun owner rp db c s =
                (Inr ((baseRecord owner rp db c False (result_status res))
                        \<lparr>backupTag := result_backupTag res, error := result_error res\<rparr>), s3)) \<and>
         (c_mergedAt c = Some t \<and> t \<noteq> [] \<and> dayjs_diff_days ev (world s1) t = Some age \<and>
          age < minimum_age_days (safety cfg)
          \<longrightarrow> processBranch ev cfg dryRun owner rp db c s =
                (Inr ((baseRecord owner rp db c False SkippedTooRecent)
                        \<lparr>error := ''Only '' @ show_int age @ '' days old''\<rparr>), s1))"
  using assms
  by (auto simp: processBranch_def tooRecent_def isBranchReachable_compare)

theorem null_mergedAt_skips_age_gate_witness:
  "minimum_age_days (safety (config0\<lparr>safety := (safety config0)\<lparr>minimum_age_days := 1000\<rparr>\<rparr>)) = 1000 \<and>
   c_mergedAt cand_undated = None \<and>
   map_sum id actionTaken
     (fst (processBranch host_env (config0\<lparr>safety := (safety config0)\<lparr>minimum_age_days := 1000\<rparr>\<rparr>)
             False ''acme'' ''tools'' ''main'' cand_undated (state0 host0))) = Inr Deleted \<and>
   map_sum id actionTaken
     (fst (processBranch host_env (config0\<lparr>safety := (safety config0)\<lparr>minimum_age_days := 1000\<rparr>\<rparr>)
             False ''acme'' ''tools'' ''main''
             (cand_undated\<lparr>c_mergedAt := Some ''2024-05-01T10:00:00Z''\<rparr>) (state0 host0)))
     = Inr SkippedTooRecent"
proof -
  let ?cfg = "config0\<lparr>safety := (safety config0)\<lparr>minimum_age_days := 1000\<rparr>\<rparr>"
  let ?c' = "cand_undated\<lparr>c_mergedAt := Some ''2024-05-01T10:00:00Z''\<rparr>"
  let ?cb = "checkBranch host_env ''acme'' ''tools'' (c_branchName cand_undated) (state0 host0)"
  let ?bi = "\<lparr>bi_name = ''claude/fix-1'', bi_protected = False, bi_exists = True\<rparr>"
  let ?cc = "compareCommits host_env ''acme'' ''tools'' ''main'' (c_branchName cand_undated) (snd ?cb)"
  let ?cr = "\<lparr>cr_status = ''behind'', ahead_by = 0, behind_by = 0\<rparr>"
  let ?bd = "backupAndDelete host_env (safety ?cfg) ''acme'' ''tools'' (c_branchName cand_undated)
               (c_sha cand_undated) False (snd ?cc)"
  have cb: "?cb = (Inr ?bi, snd ?cb)"
    by (simp add: eval_simps cand_undated_def)
  have cb': "checkBranch host_env ''acme'' ''tools'' (c_branchName ?c') (state0 host0) = (Inr ?bi, snd ?cb)"
    using cb by (simp add: cand_undated_def)
  have cc: "?cc = (Inr ?cr, snd ?cc)"
    by (simp add: eval_simps cand_undated_def)
  have bd: "?bd = (ResDeleted ''cleanup-backup/claude-fix-1/20240511'', snd ?bd)"
    by (simp add: eval_simps cand_undated_def)
  have age: "dayjs_diff_days host_env (world (snd ?cb)) ''2024-05-01T10:00:00Z'' = Some 10"
    by (simp add: eval_simps cand_undated_def)
  have n: "c_mergedAt cand_undated = None" by (simp add: cand_undated_def)
  have b: "bi_exists ?bi" "\<not> bi_protected ?bi" by simp_all
  from null_mergedAt_skips_age_gate [OF cb b, where cr = ?cr and db = "''main''"
      and ?s2.0 = "snd ?cc" and cfg = ?cfg and dryRun = False
      and res = "ResDeleted ''cleanup-backup/claude-fix-1/20240511''" and ?s3.0 = "snd ?bd"] n cc bd
  have 1: "map_sum id actionTaken
     (fst (processBranch host_env ?cfg False ''acme'' ''tools'' ''main'' cand_undated (state0 host0)))
       = Inr Deleted"
    by (simp add: baseRecord_def)
  from null_mergedAt_skips_age_gate [OF cb' b, where t = "''2024-05-01T10:00:00Z''"
      and age = 10 and cfg = ?cfg and dryRun = False and db = "''main''"] age
  have 2: "map_sum id actionTaken
     (fst (processBranch host_env ?cfg False ''acme'' ''tools'' ''main'' ?c' (state0 host0)))
       = Inr SkippedTooRecent"
    by (simp add: baseRecord_def config0_def)
  from 1 2 n show ?thesis by (simp add: config0_def)
qed

section \<open>The summary of the reporter\<close>

lemma bump_eq:
  "increment (init_zero m k) k = m(k \<mapsto> (case m k of None \<Rightarrow> 0 | Some n \<Rightarrow> n) + 1)"
  by (auto simp: increment_def init_zero_def split: option.splits)

lemma tally_closed:
  "foldl (\<lambda>m k. increment (init_zero m k) k) m ks k =
     (if count_list ks k = 0 then m k
      else Some ((case m k of None \<Rightarrow> 0 | Some n \<Rightarrow> n) + count_list ks k))"
proof (induction ks arbitrary: m)
  case Nil
  then show ?case by simp
next
  case (Cons a ks)
  let ?f = "\<lambda>m k. increment (init_zero m k) k"
  let ?m = "increment (init_zero m a) a"
  have "foldl ?f m (a # ks) k = foldl ?f ?m ks k"
    by simp
  also have "\<dots> = (if count_list ks k = 0 then ?m k
      else Some ((case ?m k of None \<Rightarrow> 0 | Some n \<Rightarrow> n) + count_list ks k))"
    by (rule Cons.IH)
  also have "\<dots> = (if count_list (a # ks) k = 0 then m k
      else Some ((case m k of None \<Rightarrow> 0 | Some n \<Rightarrow> n) + count_list (a # ks) k))"
    by (simp add: bump_eq split: option.splits)
  finally show ?case .
qed

lemma summary_step_byStatus:
  "byStatus (summary_step sm r) = increment (init_zero (byStatus sm) (actionTaken r)) (actionTaken r)"
  by (simp add: summary_step_def Let_def)

lemma summary_step_byRepo:
  "byRepo (summary_step sm r) =
     increment (init_zero (byRepo sm) (org r @ ''/'' @ repo r)) (org r @ ''/'' @ repo r)"
  by (simp add: summary_step_def Let_def)

lemma summary_step_total: "totalBranches (summary_step sm r) = totalBranches sm"
  by (simp add: summary_step_def Let_def)

lemma summary_step_deleted:
  "deleted (summary_step sm r) = deleted sm + (if actionTaken r = Deleted then 1 else 0)"
  by (simp add: summary_step_def Let_def)

lemma summary_step_errors:
  "errors (summary_step sm r) = errors sm + (if actionTaken r = Error then 1 else 0)"
  by (simp add: summary_step_def Let_def)

lemma summary_step_skipped:
  "skipped (summary_step sm r) =
     skipped sm + (if actionTaken r \<noteq> Deleted \<and> actionTaken r \<noteq> Error then 1 else 0)"
  by (simp add: summary_step_def Let_def)

lemma foldl_byStatus:
  "byStatus (foldl summary_step sm rs) =
     foldl (\<lambda>m k. increment (init_zero m k) k) (byStatus sm) (map actionTaken rs)"
  by (induction rs arbitrary: sm) (simp_all add: summary_step_byStatus)

lemma foldl_byRepo:
  "byRepo (foldl summary_step sm rs) =
     foldl (\<lambda>m k. increment (init_zero m k) k) (byRepo sm) (map (\<lambda>r. org r @ ''/'' @ repo r) rs)"
  by (induction rs arbitrary: sm) (simp_all add: summary_step_byRepo)

lemma foldl_total: "totalBranches (foldl summary_step sm rs) = totalBranches sm"
  by (induction rs arbitrary: sm) (simp_all add: summary_step_total)

lemma foldl_deleted:
  "deleted (foldl summary_step sm rs) = deleted sm + count_list (map actionTaken rs) Deleted"
  by (induction rs arbitrary: sm) (simp_all add: summary_step_deleted)

lemma foldl_errors:
  "errors (foldl summary_step sm rs) = errors sm + count_list (map actionTaken rs) Error"
  by (induction rs arbitrary: sm) (simp_all add: summary_step_errors)

lemma foldl_skipped:
  "skipped (foldl summary_step sm rs) =
     skipped sm + length (filter (\<lambda>r. actionTaken r \<noteq> Deleted \<and> actionTaken r \<noteq> Error) rs)"
  by (induction rs arbitrary: sm) (simp_all add: summary_step_skipped)

lemma foldl_sum:
  "deleted (foldl summary_step sm rs) + skipped (foldl summary_step sm rs) +
   errors (foldl summary_step sm rs) = deleted sm + skipped sm + errors sm + length rs"
  by (induction rs arbitrary: sm)
     (simp_all add: summary_step_deleted summary_step_errors summary_step_skipped)

lemma count_list_perm:
  assumes "mset xs = mset ys"
  shows "count_list xs k = count_list ys k"
proof -
  have "count (mset xs) k = count (mset ys) k"
    using assms by simp
  then show ?thesis by (simp only: count_mset)
qed

lemma length_filter_perm:
  assumes "mset xs = mset ys"
  shows "length (filter P xs) = length (filter P ys)"
proof -
  have "mset (filter P xs) = mset (filter P ys)"
    using assms by simp
  then show ?thesis by (rule mset_eq_length)
qed

text \<open>
  C8. \<open>getSummary\<close> gives the same summary for a list of records and for every
  permutation of it: the total, the three overall counts and the two tables of counts
  (as maps from the key to its count) are equal; and the three overall counts add up to
  the total.
\<close>

theorem getSummary_order_independent:
  assumes "mset rs = mset rs'"
  shows "getSummary rs = getSummary rs' \<and>
         deleted (getSummary rs) + skipped (getSummary rs) + errors (getSummary rs) =
           totalBranches (getSummary rs)"
proof -
  have len: "length rs = length rs'"
    using assms by (rule mset_eq_length)
  have st: "mset (map actionTaken rs) = mset (map actionTaken rs')"
    using assms by simp
  have rk: "mset (map (\<lambda>r. org r @ ''/'' @ repo r) rs) = mset (map (\<lambda>r. org r @ ''/'' @ repo r) rs')"
    using assms by simp
  have 1: "totalBranches (getSummary rs) = totalBranches (getSummary rs')"
    by (simp add: getSummary_def foldl_total len)
  have 2: "deleted (getSummary rs) = deleted (getSummary rs')"
    by (simp add: getSummary_def foldl_deleted count_list_perm [OF st])
  have 3: "errors (getSummary rs) = errors (getSummary rs')"
    by (simp add: getSummary_def foldl_errors count_list_perm [OF st])
  have 4: "skipped (getSummary rs) = skipped (getSummary rs')"
    by (simp add: getSummary_def foldl_skipped length_filter_perm [OF assms])
  have 5: "byStatus (getSummary rs) = byStatus (getSummary rs')"
  proof (rule ext)
    fix k
    show "byStatus (getSummary rs) k = byStatus (getSummary rs') k"
      using count_list_perm [OF st, of k]
      by (simp add: getSummary_def foldl_byStatus tally_closed)
  qed
  have 6: "byRepo (getSummary rs) = byRepo (getSummary rs')"
  proof (rule ext)
    fix k
    show "byRepo (getSummary rs) k = byRepo (getSummary rs') k"
      using count_list_perm [OF rk, of k]
      by (simp add: getSummary_def foldl_byRepo tally_closed)
  qed
  have eq: "getSummary rs = getSummary rs'"
    using 1 2 3 4 5 6 by (simp add: ReportSummary.equality)
  have "deleted (getSummary rs) + skipped (getSummary rs) + errors (getSummary rs) =
           totalBranches (getSummary rs)"
    by (simp add: getSummary_def foldl_sum foldl_total)
  with eq show ?thesis by simp
qed

theorem getSummary_order_independent_witness:
  "mset [rec_deleted, rec_gone] = mset [rec_gone, rec_deleted] \<and>
   getSummary [rec_deleted, rec_gone] = getSummary [rec_gone, rec_deleted] \<and>
   deleted (getSummary [rec_deleted, rec_gone]) + skipped (getSummary [rec_deleted, rec_gone]) +
     errors (getSummary [rec_deleted, rec_gone]) = totalBranches (getSummary [rec_deleted, rec_gone]) \<and>
   totalBranches (getSummary [rec_deleted, rec_gone]) = 2"
proof -
  have p: "mset [rec_deleted, rec_gone] = mset [rec_gone, rec_deleted]"
    by simp
  have t: "totalBranches (getSummary [rec_deleted, rec_gone]) = 2"
    by (simp add: getSummary_def summary_step_def Let_def)
  from getSummary_order_independent [OF p]
  have a: "getSummary [rec_deleted, rec_gone] = getSummary [rec_gone, rec_deleted]"
    and b: "deleted (getSummary [rec_deleted, rec_gone]) + skipped (getSummary [rec_deleted, rec_gone]) +
     errors (getSummary [rec_deleted, rec_gone]) = totalBranches (getSummary [rec_deleted, rec_gone])"
    by blast+
  show ?thesis
    by (intro conjI) (fact p a b t)+
qed

section \<open>Repeating backup and delete\<close>

lemma handleDeletionError_gone:
  "err_status e = Some 404 \<or> err_status e = Some 422 \<Longrightarrow>
   result_status (handleDeletionError e) = AlreadyDeleted"
  by (auto simp: handleDeletionError_def status_or_zero_def Let_def)

lemma backupAndDelete_gone:
  fixes gone :: "'w \<Rightarrow> bool"
  assumes del: "\<And>w. gone w \<Longrightarrow>
      \<exists>e w'. api_delete_ref ev owner rp (''heads/'' @ b) w = (Inl e, w') \<and>
             (err_status e = Some 404 \<or> err_status e = Some 422) \<and> gone w'"
    and tag: "\<And>w t ob r w'. gone w \<Longrightarrow> api_post_tag ev owner rp t ob w = (r, w') \<Longrightarrow>
      gone w' \<and> (\<forall>e. r = Inl e \<longrightarrow> err_status e = Some 422)"
    and ref: "\<And>w t sh r w'. gone w \<Longrightarrow> api_post_ref ev owner rp t sh w = (r, w') \<Longrightarrow>
      gone w' \<and> (\<forall>e. r = Inl e \<longrightarrow> err_status e = Some 422)"
    and g: "gone (world s)"
  shows "result_status (fst (backupAndDelete ev cfg owner rp b sha False s)) = AlreadyDeleted \<and>
         gone (world (snd (backupAndDelete ev cfg owner rp b sha False s)))"
proof -
  have D: "\<And>s0 :: 'w state. gone (world s0) \<Longrightarrow>
      \<exists>e s'. deleteBranch ev owner rp b s0 = (Inl e, s') \<and>
             (err_status e = Some 404 \<or> err_status e = Some 422) \<and> gone (world s')"
  proof -
    fix s0 :: "'w state"
    assume "gone (world s0)"
    from del [OF this] show "\<exists>e s'. deleteBranch ev owner rp b s0 = (Inl e, s') \<and>
             (err_status e = Some 404 \<or> err_status e = Some 422) \<and> gone (world s')"
      by (auto simp: deleteBranch_def octokit_request_def)
  qed
  have T: "\<And>r s'. createBackupTag ev cfg owner rp b sha s = (r, s') \<Longrightarrow>
      gone (world s') \<and> (\<forall>e. r = Inl e \<longrightarrow> err_status e = Some 422)"
  proof -
    fix r s'
    assume c: "createBackupTag ev cfg owner rp b sha s = (r, s')"
    let ?t = "getBackupTagName cfg (dayjs_today ev (world s)) b"
    obtain r1 w1 where p1: "api_post_tag ev owner rp ?t sha (world s) = (r1, w1)"
      by (cases "api_post_tag ev owner rp ?t sha (world s)")
    from tag [OF g p1] have g1: "gone w1" and e1: "\<forall>e. r1 = Inl e \<longrightarrow> err_status e = Some 422"
      by simp_all
    show "gone (world s') \<and> (\<forall>e. r = Inl e \<longrightarrow> err_status e = Some 422)"
    proof (cases r1)
      case (Inl e)
      with c p1 g1 e1 show ?thesis
        by (auto simp: createBackupTag_def octokit_request_def Let_def)
    next
      case (Inr tsha)
      obtain r2 w2 where p2: "api_post_ref ev owner rp (''refs/tags/'' @ ?t) tsha w1 = (r2, w2)"
        by (cases "api_post_ref ev owner rp (''refs/tags/'' @ ?t) tsha w1")
      from ref [OF g1 p2] have "gone w2" and "\<forall>e. r2 = Inl e \<longrightarrow> err_status e = Some 422"
        by simp_all
      with c p1 p2 Inr show ?thesis
        by (cases r2) (auto simp: createBackupTag_def octokit_request_def Let_def)
    qed
  qed
  show ?thesis
  proof (cases "create_backup_tag cfg")
    case False
    from D [OF g] obtain e s' where "deleteBranch ev owner rp b s = (Inl e, s')"
      "err_status e = Some 404 \<or> err_status e = Some 422" "gone (world s')"
      by blast
    with False show ?thesis
      by (simp add: backupAndDelete_def backupAndDelete_try_def handleDeletionError_gone)
  next
    case True
    obtain r s' where c: "createBackupTag ev cfg owner rp b sha s = (r, s')"
      by (cases "createBackupTag ev cfg owner rp b sha s")
    from T [OF c] have g': "gone (world s')" and e': "\<forall>e. r = Inl e \<longrightarrow> err_status e = Some 422"
      by simp_all
    show ?thesis
    proof (cases r)
      case (Inl e)
      with e' have "err_status e = Some 422" by simp
      with True c Inl g' show ?thesis
        by (simp add: backupAndDelete_def backupAndDelete_try_def handleDeletionError_gone)
    next
      case (Inr t)
      from D [OF g'] obtain e s'' where "deleteBranch ev owner rp b s' = (Inl e, s'')"
        "err_status e = Some 404 \<or> err_status e = Some 422" "gone (world s'')"
        by blast
      with True c Inr show ?thesis
        by (simp add: backupAndDelete_def backupAndDelete_try_def handleDeletionError_gone)
    qed
  qed
qed

text \<open>
  C5. Two invocations of \<open>backupAndDelete\<close> without dry run, one after the other, on a
  branch that is gone both yield \<open>AlreadyDeleted\<close>, never \<open>Error\<close>. The hosting service
  is any one that answers as the code expects of it: while the branch is gone (a property
  \<open>gone\<close> of the world that the three requests preserve), deleting its reference fails
  with status 404 or 422, and creating the tag object or the tag reference either succeeds
  or fails with status 422 (the name collision of a repeated backup tag).
\<close>

theorem backupAndDelete_twice_AlreadyDeleted:
  fixes gone :: "'w \<Rightarrow> bool"
  assumes "\<And>w. gone w \<Longrightarrow>
      \<exists>e w'. api_delete_ref ev owner rp (''heads/'' @ b) w = (Inl e, w') \<and>
             (err_status e = Some 404 \<or> err_status e = Some 422) \<and> gone w'"
    and "\<And>w t ob r w'. gone w \<Longrightarrow> api_post_tag ev owner rp t ob w = (r, w') \<Longrightarrow>
      gone w' \<and> (\<forall>e. r = Inl e \<longrightarrow> err_status e = Some 422)"
    and "\<And>w t sh r w'. gone w \<Longrightarrow> api_post_ref ev owner rp t sh w = (r, w') \<Longrightarrow>
      gone w' \<and> (\<forall>e. r = Inl e \<longrightarrow> err_status e = Some 422)"
    and "gone (world s)"
    and "backupAndDelete ev cfg owner rp b sha False s = (res1, s1)"
    and "backupAndDelete ev cfg owner rp b sha False s1 = (res2, s2)"
  shows "result_status res1 = AlreadyDeleted \<and> result_status res2 = AlreadyDeleted"
proof -
  from backupAndDelete_gone [of gone ev owner rp b s cfg sha, OF assms(1,2,3,4)] assms(5)
  have 1: "result_status res1 = AlreadyDeleted" and g1: "gone (world s1)"
    by simp_all
  from backupAndDelete_gone [of gone ev owner rp b s1 cfg sha, OF assms(1,2,3) g1] assms(6)
  have "result_status res2 = AlreadyDeleted"
    by simp
  with 1 show ?thesis by simp
qed

theorem backupAndDelete_twice_AlreadyDeleted_witness:
  "map_of (h_heads (world (state0 host0))) ''claude/gone'' = None \<and>
   result_status (fst (backupAndDelete host_env (safety config0) ''acme'' ''tools'' ''claude/gone''
                         ''def456'' False (state0 host0))) = AlreadyDeleted \<and>
   result_status (fst (backupAndDelete host_env (safety config0) ''acme'' ''tools'' ''claude/gone''
                         ''def456'' False
                         (snd (backupAndDelete host_env (safety config0) ''acme'' ''tools''
                                 ''claude/gone'' ''def456'' False (state0 host0))))) = AlreadyDeleted \<and>
   calls (snd (backupAndDelete host_env (safety config0) ''acme'' ''tools'' ''claude/gone''
                 ''def456'' False
                 (snd (backupAndDelete host_env (safety config0) ''acme'' ''tools''
                         ''claude/gone'' ''def456'' False (state0 host0))))) =
     [PostGitTag ''acme'' ''tools'' ''cleanup-backup/claude-gone/20240511'' ''def456'',
      PostGitRef ''acme'' ''tools'' ''refs/tags/cleanup-backup/claude-gone/20240511''
        ''tagobject-def456'',
      DeleteGitRef ''acme'' ''tools'' ''heads/claude/gone'',
      PostGitTag ''acme'' ''tools'' ''cleanup-backup/claude-gone/20240511'' ''def456'',
      PostGitRef ''acme'' ''tools'' ''refs/tags/cleanup-backup/claude-gone/20240511''
        ''tagobject-def456'']"
proof -
  let ?gone = "\<lambda>w. map_of (h_heads w) ''claude/gone'' = None"
  let ?r1 = "backupAndDelete host_env (safety config0) ''acme'' ''tools'' ''claude/gone''
               ''def456'' False (state0 host0)"
  let ?r2 = "backupAndDelete host_env (safety config0) ''acme'' ''tools'' ''claude/gone''
               ''def456'' False (snd ?r1)"
  have h1: "\<And>w. ?gone w \<Longrightarrow>
      \<exists>e w'. api_delete_ref host_env ''acme'' ''tools'' (''heads/'' @ ''claude/gone'') w = (Inl e, w') \<and>
             (err_status e = Some 404 \<or> err_status e = Some 422) \<and> ?gone w'"
    by (simp add: host_env_def http_error_def)
  have h2: "\<And>w t ob r w'. ?gone w \<Longrightarrow> api_post_tag host_env ''acme'' ''tools'' t ob w = (r, w') \<Longrightarrow>
      ?gone w' \<and> (\<forall>e. r = Inl e \<longrightarrow> err_status e = Some 422)"
    by (auto simp: host_env_def)
  have h3: "\<And>w t sh r w'. ?gone w \<Longrightarrow> api_post_ref host_env ''acme'' ''tools'' t sh w = (r, w') \<Longrightarrow>
      ?gone w' \<and> (\<forall>e. r = Inl e \<longrightarrow> err_status e = Some 422)"
    by (auto simp: host_env_def http_error_def split: if_splits)
  have h4: "?gone (world (state0 host0))"
    by (simp add: host0_def state0_def)
  have e1: "?r1 = (fst ?r1, snd ?r1)" and e2: "?r2 = (fst ?r2, snd ?r2)"
    by simp_all
  have c: "calls (snd ?r2) =
     [PostGitTag ''acme'' ''tools'' ''cleanup-backup/claude-gone/20240511'' ''def456'',
      PostGitRef ''acme'' ''tools'' ''refs/tags/cleanup-backup/claude-gone/20240511''
        ''tagobject-def456'',
      DeleteGitRef ''acme'' ''tools'' ''heads/claude/gone'',
      PostGitTag ''acme'' ''tools'' ''cleanup-backup/claude-gone/20240511'' ''def456'',
      PostGitRef ''acme'' ''tools'' ''refs/tags/cleanup-backup/claude-gone/20240511''
        ''tagobject-def456'']"
    by (simp add: eval_simps)
  from backupAndDelete_twice_AlreadyDeleted [where gone = ?gone, OF h1 h2 h3 h4 e1 e2]
  have "result_status (fst ?r1) = AlreadyDeleted \<and> result_status (fst ?r2) = AlreadyDeleted" .
  with h4 c show ?thesis by blast
qed

section \<open>The records are written by the orchestrator only\<close>

text \<open>
  No request and no collaborator touches the list of records: it grows by \<open>addRecord\<close>
  in the loop of \<open>processRepo\<close> and nowhere else.
\<close>

lemma octokit_request_records:
  "octokit_request rq f s = (r, s') \<Longrightarrow> records s' = records s"
  by (auto simp: octokit_request_def split: prod.splits)

lemma checkPermissions_records:
  "checkPermissions ev owner rp s = (p, s') \<Longrightarrow> records s' = records s"
  by (auto simp: checkPermissions_def split: prod.splits sum.splits
      dest: octokit_request_records)

lemma getDefaultBranch_records:
  "getDefaultBranch ev owner rp s = (r, s') \<Longrightarrow> records s' = records s"
  by (auto simp: getDefaultBranch_def split: prod.splits sum.splits
      dest: octokit_request_records)

lemma findCandidates_records:
  "findCandidates ev cfg owner rp db s = (r, s') \<Longrightarrow> records s' = records s"
  by (auto simp: findCandidates_def getMergedPRs_def split: prod.splits sum.splits
      dest: octokit_request_records)

lemma checkBranch_records:
  "checkBranch ev owner rp b s = (r, s') \<Longrightarrow> records s' = records s"
  by (auto simp: checkBranch_def split: prod.splits sum.splits if_splits
      dest: octokit_request_records)

lemma isBranchReachable_records:
  "isBranchReachable ev owner rp db b s = (r, s') \<Longrightarrow> records s' = records s"
  by (auto simp: isBranchReachable_def compareCommits_def split: prod.splits sum.splits if_splits
      dest: octokit_request_records)

lemma createBackupTag_records:
  "createBackupTag ev cfg owner rp b sha s = (r, s') \<Longrightarrow> records s' = records s"
  by (auto simp: createBackupTag_def Let_def split: prod.splits sum.splits
      dest!: octokit_request_records)

lemma deleteBranch_records:
  "deleteBranch ev owner rp b s = (r, s') \<Longrightarrow> records s' = records s"
  by (auto simp: deleteBranch_def dest: octokit_request_records)

lemma backupAndDelete_records:
  "backupAndDelete ev cfg owner rp b sha dryRun s = (r, s') \<Longrightarrow> records s' = records s"
  by (auto simp: backupAndDelete_def backupAndDelete_try_def
      split: prod.splits sum.splits if_splits
      dest!: createBackupTag_records deleteBranch_records)

lemma processBranch_records:
  "processBranch ev cfg dryRun owner rp db c s = (r, s') \<Longrightarrow> records s' = records s"
  by (auto simp: processBranch_def
      split: prod.splits sum.splits if_splits option.splits
      dest!: checkBranch_records isBranchReachable_records backupAndDelete_records)

lemma processBranch_branch:
  "processBranch ev cfg dryRun owner rp db c s = (Inr r, s') \<Longrightarrow> branch r = c_branchName c"
  by (auto simp: processBranch_def baseRecord_def
      split: prod.splits sum.splits if_splits option.splits)

lemma enableAutoDelete_records:
  "enableAutoDelete ev owner rp dryRun s = (r, s') \<Longrightarrow> records s' = records s"
  by (auto simp: enableAutoDelete_def split: prod.splits sum.splits if_splits
      dest: octokit_request_records)

lemma createPermissionIssue_records:
  "records (createPermissionIssue ev owner rp n dryRun s) = records s"
  by (simp add: createPermissionIssue_def Let_def octokit_request_def
      split: prod.splits sum.splits)

section \<open>Exclusion\<close>

lemma result_status_not_excluded: "result_status res \<noteq> SkippedExcluded"
  by (cases res) simp_all

lemma processBranch_not_excluded:
  "processBranch ev cfg dryRun owner rp db c s = (Inr r, s') \<Longrightarrow> actionTaken r \<noteq> SkippedExcluded"
  unfolding processBranch_def
  by (fastforce simp: baseRecord_def result_status_not_excluded
      split: prod.splits sum.splits if_splits option.splits)

lemma collectCandidates_not_excluded:
  "collectCandidates ev cfg db prs acc = Inr cs \<Longrightarrow>
   (\<And>a. a \<in> set acc \<Longrightarrow> isExcluded ev cfg (c_branchName a) = Inr False) \<Longrightarrow>
   c \<in> set cs \<Longrightarrow> isExcluded ev cfg (c_branchName c) = Inr False"
proof (induction prs arbitrary: acc)
  case Nil
  then show ?case by simp
next
  case (Cons pr prs)
  note run = Cons.prems(1)
  show ?case
  proof (cases "baseRefName pr \<noteq> db")
    case True
    with run have "collectCandidates ev cfg db prs acc = Inr cs" by simp
    from Cons.IH [OF this Cons.prems(2) Cons.prems(3)] show ?thesis .
  next
    case False
    with run obtain m where m: "matchesPatterns ev cfg (headRefName pr) = Inr m"
      by (cases "matchesPatterns ev cfg (headRefName pr)") simp_all
    show ?thesis
    proof (cases m)
      case nm: False
      with run False m have "collectCandidates ev cfg db prs acc = Inr cs" by simp
      from Cons.IH [OF this Cons.prems(2) Cons.prems(3)] show ?thesis .
    next
      case ym: True
      with run False m obtain x where x: "isExcluded ev cfg (headRefName pr) = Inr x"
        by (cases "isExcluded ev cfg (headRefName pr)") simp_all
      show ?thesis
      proof (cases x)
        case True
        with run False m ym x have "collectCandidates ev cfg db prs acc = Inr cs" by simp
        from Cons.IH [OF this Cons.prems(2) Cons.prems(3)] show ?thesis .
      next
        case nx: False
        show ?thesis
        proof (cases "headRefName pr \<notin> set (map c_branchName acc)")
          case True
          with run False m ym x nx
          have r: "collectCandidates ev cfg db prs (acc @ [candidate_of pr]) = Inr cs" by simp
          have "\<And>a. a \<in> set (acc @ [candidate_of pr]) \<Longrightarrow>
                  isExcluded ev cfg (c_branchName a) = Inr False"
            using Cons.prems(2) x nx by (auto simp: candidate_of_def)
          from Cons.IH [OF r this Cons.prems(3)] show ?thesis .
        next
          case seen: False
          with run False m ym x nx
          have "collectCandidates ev cfg db prs acc = Inr cs" by simp
          from Cons.IH [OF this Cons.prems(2) Cons.prems(3)] show ?thesis .
        qed
      qed
    qed
  qed
qed


lemma processCandidates_records:
  "processCandidates ev cfg dryRun owner rp db cs n s = (r, s') \<Longrightarrow>
   \<exists>rs. records s' = records s @ rs \<and>
        (\<forall>x\<in>set rs. branch x \<in> set (map c_branchName cs) \<and> actionTaken x \<noteq> SkippedExcluded)"
proof (induction cs arbitrary: n s)
  case Nil
  then show ?case by simp
next
  case (Cons c cs)
  obtain r1 s1 where pb: "processBranch ev cfg dryRun owner rp db c s = (r1, s1)"
    by (cases "processBranch ev cfg dryRun owner rp db c s")
  note same = processBranch_records [OF pb]
  show ?case
  proof (cases r1)
    case (Inl e)
    with pb Cons.prems same have "records s' = records s @ []" by simp
    then show ?thesis by (intro exI [of _ "[]"]) simp
  next
    case (Inr result)
    let ?n = "if actionTaken result = ProtectedRuleBlocked \<or> actionTaken result = TokenInsufficient
              then n + 1 else n"
    from pb Inr Cons.prems
    have "processCandidates ev cfg dryRun owner rp db cs ?n (addRecord result s1) = (r, s')"
      by simp
    from Cons.IH [OF this] obtain rs where
      r: "records s' = records (addRecord result s1) @ rs" and
      m: "\<forall>x\<in>set rs. branch x \<in> set (map c_branchName cs) \<and> actionTaken x \<noteq> SkippedExcluded"
      by blast
    from pb Inr have b: "branch result = c_branchName c"
      by (simp add: processBranch_branch)
    from pb Inr have a: "actionTaken result \<noteq> SkippedExcluded"
      by (simp add: processBranch_not_excluded)
    from r same have "records s' = records s @ (result # rs)"
      by (simp add: addRecord_def)
    moreover from m a b
    have "\<forall>x\<in>set (result # rs). branch x \<in> set (map c_branchName (c # cs)) \<and>
            actionTaken x \<noteq> SkippedExcluded"
      by auto
    ultimately show ?thesis by blast
  qed
qed

lemma findCandidates_not_excluded:
  assumes "findCandidates ev cfg owner rp db s0 = (Inr cs, s1)" and "c \<in> set cs"
  shows "isExcluded ev cfg (c_branchName c) = Inr False"
proof -
  from assms(1) obtain prs where "collectCandidates ev cfg db prs [] = Inr cs"
    by (auto simp: findCandidates_def split: prod.splits sum.splits)
  from collectCandidates_not_excluded [OF this _ assms(2)] show ?thesis by simp
qed

lemma processRepo_try_records:
  assumes "processRepo_try ev cfg dryRun owner rp s = (r, s')"
  shows "\<exists>rs. records s' = records s @ rs \<and>
          (\<forall>x\<in>set rs. isExcluded ev cfg (branch x) = Inr False \<and> actionTaken x \<noteq> SkippedExcluded)"
proof -
  obtain perms sa where cp: "checkPermissions ev owner rp s = (perms, sa)"
    by (cases "checkPermissions ev owner rp s")
  note ra = checkPermissions_records [OF cp]
  show ?thesis
  proof (cases "canDelete perms")
    case False
    with assms cp ra have "records s' = records s @ []"
      by (simp add: processRepo_try_def)
    then show ?thesis by (intro exI [of _ "[]"]) simp
  next
    case cd: True
    obtain r2 sb where gd: "getDefaultBranch ev owner rp sa = (r2, sb)"
      by (cases "getDefaultBranch ev owner rp sa")
    note rb = getDefaultBranch_records [OF gd]
    show ?thesis
    proof (cases r2)
      case (Inl e)
      with assms cp cd gd ra rb have "records s' = records s @ []"
        by (simp add: processRepo_try_def)
      then show ?thesis by (intro exI [of _ "[]"]) simp
    next
      case (Inr db)
      obtain r3 sc where fc: "findCandidates ev cfg owner rp db sb = (r3, sc)"
        by (cases "findCandidates ev cfg owner rp db sb")
      note rc = findCandidates_records [OF fc]
      show ?thesis
      proof (cases r3)
        case (Inl e)
        with assms cp cd gd Inr fc ra rb rc have "records s' = records s @ []"
          by (simp add: processRepo_try_def)
        then show ?thesis by (intro exI [of _ "[]"]) simp
      next
        case cs: (Inr cands)
        show ?thesis
        proof (cases "cands = []")
          case True
          with assms cp cd gd Inr fc cs ra rb rc have "records s' = records s @ []"
            by (simp add: processRepo_try_def)
          then show ?thesis by (intro exI [of _ "[]"]) simp
        next
          case ne: False
          obtain r4 sd where pc: "processCandidates ev cfg dryRun owner rp db cands 0 sc = (r4, sd)"
            by (cases "processCandidates ev cfg dryRun owner rp db cands 0 sc")
          from processCandidates_records [OF pc] obtain rs where
            rs: "records sd = records sc @ rs"
            "\<forall>x\<in>set rs. branch x \<in> set (map c_branchName cands) \<and>
                actionTaken x \<noteq> SkippedExcluded"
            by blast
          have ex: "\<forall>x\<in>set rs. isExcluded ev cfg (branch x) = Inr False \<and>
                      actionTaken x \<noteq> SkippedExcluded"
          proof
            fix x assume x: "x \<in> set rs"
            with rs(2) obtain c where "c \<in> set cands" "branch x = c_branchName c"
              by auto
            with findCandidates_not_excluded [of ev cfg owner rp db sb cands sc c] fc cs
            have "isExcluded ev cfg (branch x) = Inr False" by simp
            with rs(2) x show "isExcluded ev cfg (branch x) = Inr False \<and>
                                actionTaken x \<noteq> SkippedExcluded"
              by simp
          qed
          have "records s' = records sd"
          proof (cases r4)
            case (Inl e)
            with assms cp cd gd Inr fc cs ne pc show ?thesis
              by (simp add: processRepo_try_def)
          next
            case n: (Inr blocked)
            show ?thesis
            proof (cases "autoDeleteEnabled perms")
              case True
              with assms cp cd gd Inr fc cs ne pc n show ?thesis
                by (simp add: processRepo_try_def)
            next
              case False
              obtain r5 se where ea: "enableAutoDelete ev owner rp dryRun sd = (r5, se)"
                by (cases "enableAutoDelete ev owner rp dryRun sd")
              note re = enableAutoDelete_records [OF ea]
              from assms cp cd gd Inr fc cs ne pc n False ea re show ?thesis
                by (cases r5)
                   (auto simp: processRepo_try_def createPermissionIssue_records
                         split: if_splits)
            qed
          qed
          with rs(1) ra rb rc have "records s' = records s @ rs" by simp
          with ex show ?thesis by blast
        qed
      qed
    qed
  qed
qed

lemma processRepo_records:
  assumes "processRepo ev cfg dryRun owner rp s = (r, s')"
  shows "\<exists>rs. records s' = records s @ rs \<and>
          (\<forall>x\<in>set rs. isExcluded ev cfg (branch x) = Inr False \<and> actionTaken x \<noteq> SkippedExcluded)"
proof -
  obtain r0 where "processRepo_try ev cfg dryRun owner rp s = (r0, s')"
    using assms by (auto simp: processRepo_def split: prod.splits sum.splits)
  from processRepo_try_records [OF this] show ?thesis .
qed

lemma tooRecent_ignores_patterns:
  "tooRecent (ev\<lparr>regexp_test := rt\<rparr>) (cfg\<lparr>branch_patterns := bp, exclude_patterns := xp\<rparr>) c w =
   tooRecent ev cfg c w"
  by (simp add: tooRecent_def
      cong del: if_weak_cong prod.case_cong_weak sum.case_cong_weak option.case_cong_weak)

lemma checkBranch_ignores_patterns:
  "checkBranch (ev\<lparr>regexp_test := rt\<rparr>) owner rp b s = checkBranch ev owner rp b s"
  by (simp add: checkBranch_def
      cong del: if_weak_cong prod.case_cong_weak sum.case_cong_weak option.case_cong_weak)

lemma isBranchReachable_ignores_patterns:
  "isBranchReachable (ev\<lparr>regexp_test := rt\<rparr>) owner rp db b s =
   isBranchReachable ev owner rp db b s"
  by (simp add: isBranchReachable_def compareCommits_def
      cong del: if_weak_cong prod.case_cong_weak sum.case_cong_weak option.case_cong_weak)

lemma backupAndDelete_ignores_patterns:
  "backupAndDelete (ev\<lparr>regexp_test := rt\<rparr>) sf owner rp b sha dryRun s =
   backupAndDelete ev sf owner rp b sha dryRun s"
  by (simp add: backupAndDelete_def backupAndDelete_try_def createBackupTag_def
      deleteBranch_def getBackupTagName_def format_YYYYMMDD_def
      cong del: if_weak_cong prod.case_cong_weak sum.case_cong_weak option.case_cong_weak)

lemma processBranch_ignores_patterns:
  "processBranch (ev\<lparr>regexp_test := rt\<rparr>) (cfg\<lparr>branch_patterns := bp, exclude_patterns := xp\<rparr>)
     dryRun owner rp db c s = processBranch ev cfg dryRun owner rp db c s"
  by (simp add: processBranch_def tooRecent_ignores_patterns checkBranch_ignores_patterns
      isBranchReachable_ignores_patterns backupAndDelete_ignores_patterns
      cong del: if_weak_cong prod.case_cong_weak sum.case_cong_weak option.case_cong_weak)

lemma processBranch_proceeds:
  assumes "checkBranch ev owner rp (c_branchName c) s = (Inr bi, s1)"
    and "bi_exists bi" and "\<not> bi_protected bi"
    and "tooRecent ev cfg c (world s1) = None"
    and "compareCommits ev owner rp db (c_branchName c) s1 = (Inr cr, s2)"
    and "cr_status cr = ''behind'' \<or> cr_status cr = ''identical''"
    and "backupAndDelete ev (safety cfg) owner rp (c_branchName c) (c_sha c) dryRun s2 = (res, s3)"
  shows "processBranch ev cfg dryRun owner rp db c s =
           (Inr ((baseRecord owner rp db c False (result_status res))
                   \<lparr>backupTag := result_backupTag res, error := result_error res\<rparr>), s3)"
  using assms by (auto simp: processBranch_def isBranchReachable_compare)

text \<open>
  C2, as stated, fails. \<open>claude/keep-1\<close> matches the exclude pattern, exists, is
  unprotected, is ten days old with a minimum of seven and is behind \<open>main\<close>. In a pass
  over its repository it is no candidate and gets no record at all; and the evaluation of
  one candidate, given this branch, deletes it.
\<close>

theorem excluded_candidate_is_deleted:
  "isExcluded host_env config0 (c_branchName cand_keep) = Inr True \<and>
   fst (checkBranch host_env ''acme'' ''tools'' (c_branchName cand_keep) (state0 host1)) =
     Inr \<lparr>bi_name = ''claude/keep-1'', bi_protected = False, bi_exists = True\<rparr> \<and>
   dayjs_diff_days host_env host1 ''2024-05-01T10:00:00Z'' = Some 10 \<and>
   minimum_age_days (safety config0) = 7 \<and>
   map_sum id cr_status
     (fst (compareCommits host_env ''acme'' ''tools'' ''main'' (c_branchName cand_keep) (state0 host1)))
     = Inr ''behind'' \<and>
   map_sum id actionTaken
     (fst (processBranch host_env config0 False ''acme'' ''tools'' ''main'' cand_keep (state0 host1)))
     = Inr Deleted \<and>
   concat (h_prs host1) =
     [\<lparr>pr_number = 20, pr_mergedAt = ''2024-05-01T10:00:00Z'', headRefName = ''claude/keep-1'',
       headRefOid = ''aaa111'', baseRefName = ''main''\<rparr>] \<and>
   fst (findCandidates host_env config0 ''acme'' ''tools'' ''main'' (state0 host1)) = Inr [] \<and>
   records (snd (processRepo host_env config0 False ''acme'' ''tools'' (state0 host1))) = []"
  by (simp add: eval_simps cand_keep_def host1_def processRepo_def processRepo_try_def
      checkPermissions_def)

text \<open>
  C2, amended. Exclusion is applied during discovery only. Every candidate that
  \<open>findCandidates\<close> returns has a name that matches no exclude pattern, and every record
  that a pass over a repository adds is for such a name and is never \<open>SkippedExcluded\<close>:
  a branch whose name is excluded gets no record. The evaluation of one candidate does not
  consult the patterns: \<open>processBranch\<close> gives the same result whatever the branch and
  exclude patterns and the regular-expression engine are, it never records
  \<open>SkippedExcluded\<close>, and a candidate that exists, is not protected, is not too recent
  and whose ancestry is \<open>behind\<close> or \<open>identical\<close> goes on to \<open>backupAndDelete\<close> and gets
  the record of its outcome, whatever its name.
\<close>

theorem exclusion_only_at_discovery:
  "(findCandidates ev cfg owner rp db s0 = (Inr cs, s1) \<and> c' \<in> set cs \<longrightarrow>
      isExcluded ev cfg (c_branchName c') = Inr False) \<and>
   (processRepo ev cfg dryRun owner rp s0 = (r0, s2) \<longrightarrow>
      (\<exists>rs. records s2 = records s0 @ rs \<and>
            (\<forall>x\<in>set rs. isExcluded ev cfg (branch x) = Inr False \<and>
                          actionTaken x \<noteq> SkippedExcluded))) \<and>
   processBranch (ev\<lparr>regexp_test := rt\<rparr>) (cfg\<lparr>branch_patterns := bp, exclude_patterns := xp\<rparr>)
     dryRun owner rp db c s = processBranch ev cfg dryRun owner rp db c s \<and>
   (processBranch ev cfg dryRun owner rp db c s = (Inr r, s') \<longrightarrow>
      actionTaken r \<noteq> SkippedExcluded) \<and>
   (checkBranch ev owner rp (c_branchName c) s = (Inr bi, sa) \<and> bi_exists bi \<and>
    \<not> bi_protected bi \<and> tooRecent ev cfg c (world sa) = None \<and>
    compareCommits ev owner rp db (c_branchName c) sa = (Inr cr, sb) \<and>
    (cr_status cr = ''behind'' \<or> cr_status cr = ''identical'') \<and>
    backupAndDelete ev (safety cfg) owner rp (c_branchName c) (c_sha c) dryRun sb = (res, sc) \<longrightarrow>
      processBranch ev cfg dryRun owner rp db c s =
        (Inr ((baseRecord owner rp db c False (result_status res))
                \<lparr>backupTag := result_backupTag res, error := result_error res\<rparr>), sc))"
proof (intro conjI impI)
  assume "findCandidates ev cfg owner rp db s0 = (Inr cs, s1) \<and> c' \<in> set cs"
  then show "isExcluded ev cfg (c_branchName c') = Inr False"
    using findCandidates_not_excluded by blast
next
  assume "processRepo ev cfg dryRun owner rp s0 = (r0, s2)"
  then show "\<exists>rs. records s2 = records s0 @ rs \<and>
            (\<forall>x\<in>set rs. isExcluded ev cfg (branch x) = Inr False \<and>
                          actionTaken x \<noteq> SkippedExcluded)"
    by (rule processRepo_records)
next
  show "processBranch (ev\<lparr>regexp_test := rt\<rparr>)
          (cfg\<lparr>branch_patterns := bp, exclude_patterns := xp\<rparr>) dryRun owner rp db c s =
        processBranch ev cfg dryRun owner rp db c s"
    by (rule processBranch_ignores_patterns)
next
  assume "processBranch ev cfg dryRun owner rp db c s = (Inr r, s')"
  then show "actionTaken r \<noteq> SkippedExcluded" by (rule processBranch_not_excluded)
next
  assume a: "checkBranch ev owner rp (c_branchName c) s = (Inr bi, sa) \<and> bi_exists bi \<and>
    \<not> bi_protected bi \<and> tooRecent ev cfg c (world sa) = None \<and>
    compareCommits ev owner rp db (c_branchName c) sa = (Inr cr, sb) \<and>
    (cr_status cr = ''behind'' \<or> cr_status cr = ''identical'') \<and>
    backupAndDelete ev (safety cfg) owner rp (c_branchName c) (c_sha c) dryRun sb = (res, sc)"
  then show "processBranch ev cfg dryRun owner rp db c s =
        (Inr ((baseRecord owner rp db c False (result_status res))
                \<lparr>backupTag := result_backupTag res, error := result_error res\<rparr>), sc)"
    using processBranch_proceeds [of ev owner rp c s bi sa cfg db cr sb dryRun res sc] by blast
qed


theorem exclusion_only_at_discovery_witness:
  "isExcluded host_env config0 ''claude/fix-1'' = Inr False \<and>
   map (\<lambda>x. (branch x, actionTaken x))
     (records (snd (processRepo host_env config0 False ''acme'' ''tools'' (state0 host0)))) =
     [(''claude/fix-1'', Deleted), (''claude/gone'', AlreadyDeleted)] \<and>
   list_all (\<lambda>x. isExcluded host_env config0 (branch x) = Inr False \<and>
                  actionTaken x \<noteq> SkippedExcluded)
     (records (snd (processRepo host_env config0 False ''acme'' ''tools'' (state0 host0)))) \<and>
   processBranch (host_env\<lparr>regexp_test := (\<lambda>p n. Inr True)\<rparr>)
     (config0\<lparr>branch_patterns := [], exclude_patterns := [''*'']\<rparr>)
     False ''acme'' ''tools'' ''main'' cand_keep (state0 host1) =
   processBranch host_env config0 False ''acme'' ''tools'' ''main'' cand_keep (state0 host1) \<and>
   fst (processBranch host_env config0 False ''acme'' ''tools'' ''main'' cand_keep (state0 host1)) =
     Inr \<lparr>org = ''acme'', repo = ''tools'', branch = ''claude/keep-1'', headSha = ''aaa111'',
          mergedPr = Some 20, mergedAt = Some ''2024-05-01T10:00:00Z'', defaultBranch = ''main'',
          protected = False, actionTaken = Deleted,
          backupTag = ''cleanup-backup/claude-keep-1/20240511'', error = []\<rparr>"
proof -
  let ?c1 = "\<lparr>c_branchName = ''claude/fix-1'', c_sha = ''abc123'', c_prNumber = Some 12,
            c_mergedAt = Some ''2024-05-01T10:00:00Z''\<rparr>"
  let ?c2 = "\<lparr>c_branchName = ''claude/gone'', c_sha = ''def456'', c_prNumber = Some 9,
            c_mergedAt = Some ''2024-04-20T10:00:00Z''\<rparr>"
  let ?f = "findCandidates host_env config0 ''acme'' ''tools'' ''main'' (state0 host0)"
  let ?r = "processRepo host_env config0 False ''acme'' ''tools'' (state0 host0)"
  let ?p = "processBranch host_env config0 False ''acme'' ''tools'' ''main'' cand_keep (state0 host1)"
  let ?cb = "checkBranch host_env ''acme'' ''tools'' (c_branchName cand_keep) (state0 host1)"
  let ?bi = "\<lparr>bi_name = ''claude/keep-1'', bi_protected = False, bi_exists = True\<rparr>"
  let ?cc = "compareCommits host_env ''acme'' ''tools'' ''main'' (c_branchName cand_keep) (snd ?cb)"
  let ?cr = "\<lparr>cr_status = ''behind'', ahead_by = 0, behind_by = 0\<rparr>"
  let ?bd = "backupAndDelete host_env (safety config0) ''acme'' ''tools'' (c_branchName cand_keep)
               (c_sha cand_keep) False (snd ?cc)"
  have hf: "?f = (Inr [?c1, ?c2], snd ?f)"
    by (simp add: eval_simps prod_eq_iff)
  have hm: "?c1 \<in> set [?c1, ?c2]" by simp
  have hr: "?r = (fst ?r, snd ?r)" by simp
  have hp: "?p = (Inr (projr (fst ?p)), snd ?p)"
    by (simp add: eval_simps cand_keep_def host1_def prod_eq_iff)
  have hcb: "?cb = (Inr ?bi, snd ?cb)"
    by (simp add: eval_simps cand_keep_def host1_def prod_eq_iff)
  have hbi: "bi_exists ?bi" "\<not> bi_protected ?bi" by simp_all
  have htr: "tooRecent host_env config0 cand_keep (world (snd ?cb)) = None"
    by (simp add: eval_simps cand_keep_def host1_def)
  have hcc: "?cc = (Inr ?cr, snd ?cc)"
    by (simp add: eval_simps cand_keep_def host1_def prod_eq_iff)
  have hcr: "cr_status ?cr = ''behind'' \<or> cr_status ?cr = ''identical''" by simp
  have hbd: "?bd = (fst ?bd, snd ?bd)" by simp
  have recs: "map (\<lambda>x. (branch x, actionTaken x)) (records (snd ?r)) =
                [(''claude/fix-1'', Deleted), (''claude/gone'', AlreadyDeleted)]"
    by (simp add: eval_simps processRepo_def processRepo_try_def checkPermissions_def
        enableAutoDelete_def addRecord_def)
  have res: "fst ?bd = ResDeleted ''cleanup-backup/claude-keep-1/20240511''"
    by (simp add: eval_simps cand_keep_def host1_def)
  note inst = exclusion_only_at_discovery [where ev = host_env and cfg = config0
      and dryRun = False and owner = "''acme''" and rp = "''tools''" and db = "''main''"
      and ?s0.0 = "state0 host0" and cs = "[?c1, ?c2]" and ?s1.0 = "snd ?f" and c' = ?c1
      and ?r0.0 = "fst ?r" and ?s2.0 = "snd ?r"
      and rt = "\<lambda>p n. Inr True" and bp = "[]" and xp = "[''*'']"
      and c = cand_keep and s = "state0 host1" and r = "projr (fst ?p)" and s' = "snd ?p"
      and bi = ?bi and sa = "snd ?cb" and cr = ?cr and sb = "snd ?cc"
      and res = "fst ?bd" and sc = "snd ?bd"]
  from inst hf hm have a: "isExcluded host_env config0 ''claude/fix-1'' = Inr False"
    by simp
  from inst hr obtain rs where
    rs: "records (snd ?r) = records (state0 host0) @ rs"
      "\<forall>x\<in>set rs. isExcluded host_env config0 (branch x) = Inr False \<and>
                    actionTaken x \<noteq> SkippedExcluded"
    by blast
  from rs(1) have "rs = records (snd ?r)" by (simp add: state0_def)
  with rs(2) have b: "list_all (\<lambda>x. isExcluded host_env config0 (branch x) = Inr False \<and>
                  actionTaken x \<noteq> SkippedExcluded) (records (snd ?r))"
    by (simp add: list_all_iff)
  from inst have c: "processBranch (host_env\<lparr>regexp_test := (\<lambda>p n. Inr True)\<rparr>)
     (config0\<lparr>branch_patterns := [], exclude_patterns := [''*'']\<rparr>)
     False ''acme'' ''tools'' ''main'' cand_keep (state0 host1) = ?p"
    by blast
  from inst hcb hbi htr hcc hcr hbd
  have "?p = (Inr ((baseRecord ''acme'' ''tools'' ''main'' cand_keep False (result_status (fst ?bd)))
                \<lparr>backupTag := result_backupTag (fst ?bd), error := result_error (fst ?bd)\<rparr>), snd ?bd)"
    by blast
  with res have d: "fst ?p = Inr \<lparr>org = ''acme'', repo = ''tools'', branch = ''claude/keep-1'',
          headSha = ''aaa111'', mergedPr = Some 20, mergedAt = Some ''2024-05-01T10:00:00Z'',
          defaultBranch = ''main'', protected = False, actionTaken = Deleted,
          backupTag = ''cleanup-backup/claude-keep-1/20240511'', error = []\<rparr>"
    by (simp add: baseRecord_def cand_keep_def)
  show ?thesis
    by (intro conjI) (fact a recs b c d)+
qed

section \<open>Discovery of the candidates\<close>

text \<open>
  C4 (the candidate retained for a branch name is the one of its most recently merged pull
  request) fails at this input, against the comment of the code, ``Use the most recent PR
  for each branch''. Of two merged pull requests from the head branch \<open>claude/fix-1\<close>,
  both into \<open>main\<close>, number 9 (merged on 1 May) is the most recently merged, and the
  enumeration lists number 7 (merged on 1 March, updated since) first. \<open>findCandidates\<close>
  returns one candidate for the name, and it is the one of number 7: its head commit, its
  number and its merge time, not those of number 9. The pass over the repository then
  tags, deletes and records the branch with the commit of number 7.
\<close>

theorem most_recent_merge_not_retained:
  "fst (getMergedPRs host_env ''acme'' ''tools'' (state0 host2)) = Inr [pr7, pr9] \<and>
   spec_most_recently_merged [pr7, pr9] ''claude/fix-1'' = Some pr9 \<and>
   fst (findCandidates host_env config0 ''acme'' ''tools'' ''main'' (state0 host2)) =
     Inr [\<lparr>c_branchName = ''claude/fix-1'', c_sha = ''old111'', c_prNumber = Some 7,
           c_mergedAt = Some ''2024-03-01T10:00:00Z''\<rparr>] \<and>
   candidate_of pr9 =
     \<lparr>c_branchName = ''claude/fix-1'', c_sha = ''abc123'', c_prNumber = Some 9,
      c_mergedAt = Some ''2024-05-01T10:00:00Z''\<rparr> \<and>
   map (\<lambda>r. (branch r, headSha r, mergedPr r, mergedAt r, actionTaken r))
     (records (snd (processRepo host_env config0 False ''acme'' ''tools'' (state0 host2)))) =
     [(''claude/fix-1'', ''old111'', Some 7, Some ''2024-03-01T10:00:00Z'', Deleted)] \<and>
   filter mutating (calls (snd (processRepo host_env config0 False ''acme'' ''tools'' (state0 host2)))) =
     [PostGitTag ''acme'' ''tools'' ''cleanup-backup/claude-fix-1/20240511'' ''old111'',
      PostGitRef ''acme'' ''tools'' ''refs/tags/cleanup-backup/claude-fix-1/20240511''
        (''tagobject-'' @ ''old111''),
      DeleteGitRef ''acme'' ''tools'' ''heads/claude/fix-1'',
      PatchRepo ''acme'' ''tools'']"
  by (simp add: eval_simps host2_def pr7_def pr9_def spec_most_recently_merged_def
      processRepo_def processRepo_try_def checkPermissions_def enableAutoDelete_def
      addRecord_def)

section \<open>The permission issue\<close>










section \<open>A task that runs alone\<close>





















section \<open>The tasks under a schedule\<close>























section \<open>Failures at the repository boundary\<close>






















end
